theory Spec2Isabelle
  imports Complex_Main "HOL-Library.Word" "HOL-Library.Sublist"
begin

section \<open>Common data\<close>

text \<open>
  The two sites. The source writes them as the string literals \<^verbatim>\<open>'flipkart'\<close> and
  \<^verbatim>\<open>'shopsy'\<close>; \<open>platformName\<close> gives the literal back where the code splices it into a
  template string.
\<close>

datatype Platform = Flipkart | Shopsy

fun platformName :: "Platform \<Rightarrow> string" where
  "platformName Flipkart = ''flipkart''"
| "platformName Shopsy = ''shopsy''"

section \<open>Fingerprint generator (fingerprint.ts)\<close>

text \<open>
  A device descriptor of Playwright's \<^verbatim>\<open>devices\<close> table. The table is not part of the
  repository, so it is a parameter of the model: a function from the device name to its
  descriptor. Numbers that are not indices are JavaScript numbers and only copied.
\<close>

record Viewport =
  width :: real
  height :: real

record Device =
  d_userAgent :: string
  d_viewport :: Viewport
  d_deviceScaleFactor :: real
  d_hasTouch :: bool
  d_isMobile :: bool

record Fingerprint =
  userAgent :: string
  viewport :: Viewport
  deviceScaleFactor :: real
  locale' :: string
  timezoneId :: string
  hasTouch :: bool
  isMobile :: bool
  javaScriptEnabled :: bool

definition DESKTOP_USER_AGENTS :: "string list" where
  "DESKTOP_USER_AGENTS =
    [''Mozilla/5.0 (Windows NT 10.0; Win64; x64) AppleWebKit/537.36 (KHTML, like Gecko) Chrome/120.0.0.0 Safari/537.36'',
     ''Mozilla/5.0 (Macintosh; Intel Mac OS X 10_15_7) AppleWebKit/537.36 (KHTML, like Gecko) Chrome/120.0.0.0 Safari/537.36'',
     ''Mozilla/5.0 (Windows NT 10.0; Win64; x64; rv:109.0) Gecko/20100101 Firefox/115.0'']"

definition MOBILE_DEVICES :: "(string \<Rightarrow> Device) \<Rightarrow> Device list" where
  "MOBILE_DEVICES devices =
    [devices ''Pixel 5'', devices ''Pixel 7'', devices ''Samsung Galaxy S20 Ultra'',
     devices ''iPhone 12'']"

text \<open>
  The loop \<^verbatim>\<open>for (i = 0; i < seed.length; i++) sum += seed.charCodeAt(i)\<close>, left to
  right. A seed is an Isabelle string, and \<open>of_char\<close> gives the code of a character. The
  sum of the codes of a string stays far below \<open>2^53\<close>, so the JavaScript number is the
  exact natural number.
\<close>

definition charCodeSum :: "string \<Rightarrow> nat" where
  "charCodeSum seed = fold (\<lambda>c sum. sum + of_char c) seed 0"

definition generateFingerprint :: "(string \<Rightarrow> Device) \<Rightarrow> Platform \<Rightarrow> string \<Rightarrow> Fingerprint" where
  "generateFingerprint devices platform seed =
    (let sum = charCodeSum seed in
     if platform = Shopsy then
       (let deviceIndex = sum mod length (MOBILE_DEVICES devices);
            device = MOBILE_DEVICES devices ! deviceIndex
        in \<lparr> userAgent = d_userAgent device,
             viewport = d_viewport device,
             deviceScaleFactor = d_deviceScaleFactor device,
             locale' = ''en-IN'',
             timezoneId = ''Asia/Kolkata'',
             hasTouch = d_hasTouch device,
             isMobile = d_isMobile device,
             javaScriptEnabled = True \<rparr>)
     else
       (let uaIndex = sum mod length DESKTOP_USER_AGENTS
        in \<lparr> userAgent = DESKTOP_USER_AGENTS ! uaIndex,
             viewport = \<lparr> width = 1920, height = 1080 \<rparr>,
             deviceScaleFactor = 1,
             locale' = ''en-IN'',
             timezoneId = ''Asia/Kolkata'',
             hasTouch = False,
             isMobile = False,
             javaScriptEnabled = True \<rparr>))"

section \<open>JavaScript strings\<close>

text \<open>
  Strings are Isabelle strings: lists of characters with the codes 0 to 255, that is
  ASCII and Latin-1. A JavaScript string with a code unit above 255 has no counterpart
  here. \<open>toLowerCase\<close> is \<^verbatim>\<open>String.prototype.toLowerCase\<close> on these characters: it
  maps the letters \<open>A\<close> to \<open>Z\<close> and the Latin-1 capitals U+00C0 to U+00DE (the
  multiplication sign U+00D7 apart) to the small letter 32 places on, and leaves every
  other character alone. \<open>trim\<close> removes the white space and line terminators of
  ECMAScript that a \<open>char\<close> can hold from both ends; \<open>includes'\<close> is the substring test
  of \<^verbatim>\<open>String.prototype.includes\<close>, \<open>startsWith\<close> the prefix test.
\<close>

definition toLowerChar :: "char \<Rightarrow> char" where
  "toLowerChar c =
    (case map_of
            (zip (''ABCDEFGHIJKLMNOPQRSTUVWXYZ'' @
                  [CHR 0xC0, CHR 0xC1, CHR 0xC2, CHR 0xC3, CHR 0xC4, CHR 0xC5, CHR 0xC6, CHR 0xC7,
                   CHR 0xC8, CHR 0xC9, CHR 0xCA, CHR 0xCB, CHR 0xCC, CHR 0xCD, CHR 0xCE, CHR 0xCF,
                   CHR 0xD0, CHR 0xD1, CHR 0xD2, CHR 0xD3, CHR 0xD4, CHR 0xD5, CHR 0xD6,
                   CHR 0xD8, CHR 0xD9, CHR 0xDA, CHR 0xDB, CHR 0xDC, CHR 0xDD, CHR 0xDE])
                 (''abcdefghijklmnopqrstuvwxyz'' @
                  [CHR 0xE0, CHR 0xE1, CHR 0xE2, CHR 0xE3, CHR 0xE4, CHR 0xE5, CHR 0xE6, CHR 0xE7,
                   CHR 0xE8, CHR 0xE9, CHR 0xEA, CHR 0xEB, CHR 0xEC, CHR 0xED, CHR 0xEE, CHR 0xEF,
                   CHR 0xF0, CHR 0xF1, CHR 0xF2, CHR 0xF3, CHR 0xF4, CHR 0xF5, CHR 0xF6,
                   CHR 0xF8, CHR 0xF9, CHR 0xFA, CHR 0xFB, CHR 0xFC, CHR 0xFD, CHR 0xFE])) c of
       Some l \<Rightarrow> l
     | None \<Rightarrow> c)"

definition toLowerCase :: "string \<Rightarrow> string" where
  "toLowerCase s = map toLowerChar s"

definition isWhiteSpace :: "char \<Rightarrow> bool" where
  "isWhiteSpace c = (c \<in> set [CHR 0x09, CHR 0x0A, CHR 0x0B, CHR 0x0C, CHR 0x0D, CHR 0x20, CHR 0xA0])"

definition trim :: "string \<Rightarrow> string" where
  "trim s = rev (dropWhile isWhiteSpace (rev (dropWhile isWhiteSpace s)))"

fun includes' :: "string \<Rightarrow> string \<Rightarrow> bool" where
  "includes' [] needle = (needle = [])"
| "includes' (c # cs) needle = (prefix needle (c # cs) \<or> includes' cs needle)"

definition startsWith :: "string \<Rightarrow> string \<Rightarrow> bool" where
  "startsWith s p = prefix p s"

text \<open>\<^verbatim>\<open>Array.prototype.findIndex\<close>: the first index whose element passes, \<open>None\<close> for -1.\<close>

fun findIndex :: "('a \<Rightarrow> bool) \<Rightarrow> 'a list \<Rightarrow> nat option" where
  "findIndex P [] = None"
| "findIndex P (x # xs) = (if P x then Some 0 else map_option Suc (findIndex P xs))"

section \<open>Settled promises\<close>

text \<open>
  The store is asynchronous. The model runs one call at a time, each to its end, and
  keeps, of a promise, how it settled; it says nothing about calls that overlap.
  \<open>then_st\<close> is \<^verbatim>\<open>p.then(f)\<close> and \<open>catch_st\<close> is \<^verbatim>\<open>p.catch(f)\<close> for a handler
  that works on the state.
\<close>

datatype 'a Promise = Fulfilled 'a | Rejected string

fun then_st :: "'a Promise \<Rightarrow> ('a \<Rightarrow> 's \<Rightarrow> 'b Promise \<times> 's) \<Rightarrow> 's \<Rightarrow> 'b Promise \<times> 's" where
  "then_st (Fulfilled v) f s = f v s"
| "then_st (Rejected e) f s = (Rejected e, s)"

fun catch_st :: "'a Promise \<Rightarrow> (string \<Rightarrow> 's \<Rightarrow> 'a Promise \<times> 's) \<Rightarrow> 's \<Rightarrow> 'a Promise \<times> 's" where
  "catch_st (Fulfilled v) f s = (Fulfilled v, s)"
| "catch_st (Rejected e) f s = f e s"

section \<open>Account store (accounts.ts)\<close>

datatype LoginType = Email | Mobile

datatype AccountStatus = New | Healthy | NeedsRefresh | OTPRequired | Locked | Error

record EmailConfig =
  user :: string
  passEncrypted :: string
  host :: string

text \<open>The interface \<^verbatim>\<open>Account\<close>; a field marked \<^verbatim>\<open>?\<close> is an option.\<close>

record Account =
  id' :: string
  platform :: Platform
  loginType :: LoginType
  identifier' :: string
  status :: AccountStatus
  assignedTo :: "string option"
  lastLoginAt :: "string option"
  lastValidateAt :: "string option"
  errorCode :: "string option"
  createdAt :: string
  updatedAt :: string
  emailConfig :: "EmailConfig option"

text \<open>
  The argument type of \<open>upsertAccount\<close>,
  \<^verbatim>\<open>Partial<Account> & { id: string; platform: Platform }\<close>: every field but \<open>id\<close>
  and \<open>platform\<close> may be left out (\<open>None\<close>). A field that \<open>Account\<close> marks \<^verbatim>\<open>?\<close>
  may also be given as \<^verbatim>\<open>undefined\<close> (\<open>Some None\<close>), which a spread copies like any
  other value. A field that \<open>Account\<close> requires is left out or holds a value: given as
  \<^verbatim>\<open>undefined\<close>, the result would not be an \<open>Account\<close>.
\<close>

record PartialAccount =
  p_id :: string
  p_platform :: Platform
  p_loginType :: "LoginType option"
  p_identifier :: "string option"
  p_status :: "AccountStatus option"
  p_assignedTo :: "string option option"
  p_lastLoginAt :: "string option option"
  p_lastValidateAt :: "string option option"
  p_errorCode :: "string option option"
  p_createdAt :: "string option"
  p_updatedAt :: "string option"
  p_emailConfig :: "EmailConfig option option"

record AccountsData =
  accounts :: "Account list"

text \<open>
  What \<^verbatim>\<open>ACCOUNTS_FILE\<close> holds: nothing, the legacy bare array, a document, a JSON
  object without \<^verbatim>\<open>accounts\<close>, or text that \<^verbatim>\<open>readJSON\<close> rejects.
\<close>

datatype RawFile =
  Missing
| LegacyArray "Account list"
| Document AccountsData
| NoAccounts
| Unreadable

text \<open>
  The two calls of \<^verbatim>\<open>fs-extra\<close> that change the disk, each with the ways it can end.
  \<^verbatim>\<open>fs.writeJSON(file, data)\<close> leaves the document in the file, or rejects; when it
  rejects, the file is as it was, or it was already opened for writing and what it holds
  is no longer JSON. \<^verbatim>\<open>fs.move(src, dest, { overwrite: true })\<close> removes the destination
  and then renames the source; when it rejects, the destination is as it was or already
  removed, and the source is still in its place. \<open>writeJSON\<close> gives the promise and the
  file; \<open>move\<close> gives the promise, the source and the destination.
\<close>

datatype WriteOutcome = Written | WriteFailed | WriteFailedTruncated

datatype MoveOutcome = Moved | MoveFailed | MoveFailedRemoved

fun writeJSON :: "WriteOutcome \<Rightarrow> AccountsData \<Rightarrow> RawFile \<Rightarrow> unit Promise \<times> RawFile" where
  "writeJSON Written data target = (Fulfilled (), Document data)"
| "writeJSON WriteFailed data target = (Rejected ''writeJSON'', target)"
| "writeJSON WriteFailedTruncated data target = (Rejected ''writeJSON'', Unreadable)"

fun move :: "MoveOutcome \<Rightarrow> RawFile \<Rightarrow> RawFile \<Rightarrow> unit Promise \<times> RawFile \<times> RawFile" where
  "move Moved src dest = (Fulfilled (), Missing, src)"
| "move MoveFailed src dest = (Rejected ''move'', src, dest)"
| "move MoveFailedRemoved src dest = (Rejected ''move'', src, Missing)"

text \<open>
  The state of the store: the two files, the module variable \<open>saveQueue\<close>, and the number
  of replication calls (\<open>pushAccounts\<close>) fired so far. \<open>Faults\<close> says how the disk behaves
  during one call of a store function, one field for each place that writes: the
  \<^verbatim>\<open>writeJSON\<close> of \<open>loadAccounts\<close> (first use, or the legacy format), and the
  \<^verbatim>\<open>writeJSON\<close> and the \<^verbatim>\<open>move\<close> of \<open>saveAccounts\<close>.
\<close>

record Store =
  accountsFile :: RawFile
  tmpFile :: RawFile
  saveQueue :: "unit Promise"
  cloudPushes :: nat

record Faults =
  loadWrite :: WriteOutcome
  saveWrite :: WriteOutcome
  saveMove :: MoveOutcome

definition loadAccounts_operation :: "Faults \<Rightarrow> Store \<Rightarrow> AccountsData Promise \<times> Store" where
  "loadAccounts_operation faults st =
    (case accountsFile st of
       Unreadable \<Rightarrow> (Rejected ''readJSON'', st)
     | LegacyArray raw \<Rightarrow>
         (let migrated = \<lparr> accounts = raw \<rparr> in
          case writeJSON (loadWrite faults) migrated (accountsFile st) of
            (Rejected err, file) \<Rightarrow> (Rejected err, st\<lparr> accountsFile := file \<rparr>)
          | (Fulfilled _, file) \<Rightarrow> (Fulfilled migrated, st\<lparr> accountsFile := file \<rparr>))
     | NoAccounts \<Rightarrow> (Fulfilled \<lparr> accounts = [] \<rparr>, st)
     | Document raw \<Rightarrow> (Fulfilled raw, st)
     | Missing \<Rightarrow>
         (let defaultData = \<lparr> accounts = [] \<rparr> in
          case writeJSON (loadWrite faults) defaultData (accountsFile st) of
            (Rejected err, file) \<Rightarrow> (Rejected err, st\<lparr> accountsFile := file \<rparr>)
          | (Fulfilled _, file) \<Rightarrow> (Fulfilled defaultData, st\<lparr> accountsFile := file \<rparr>)))"

definition loadAccounts :: "Faults \<Rightarrow> Store \<Rightarrow> AccountsData Promise \<times> Store" where
  "loadAccounts faults st =
    (let (result, st1) = then_st (saveQueue st) (\<lambda>_. loadAccounts_operation faults) st
     in (result, st1\<lparr> saveQueue := Fulfilled () \<rparr>))"

definition saveAccounts_operation :: "Faults \<Rightarrow> AccountsData \<Rightarrow> Store \<Rightarrow> unit Promise \<times> Store" where
  "saveAccounts_operation faults data st =
    (case writeJSON (saveWrite faults) data (tmpFile st) of
       (Rejected err, tmp) \<Rightarrow> (Rejected err, st\<lparr> tmpFile := tmp \<rparr>)
     | (Fulfilled _, tmp) \<Rightarrow>
         (case move (saveMove faults) tmp (accountsFile st) of
            (moved, src, dest) \<Rightarrow> (moved, st\<lparr> tmpFile := src, accountsFile := dest \<rparr>)))"

definition saveAccounts :: "Faults \<Rightarrow> AccountsData \<Rightarrow> Store \<Rightarrow> unit Promise \<times> Store" where
  "saveAccounts faults data st =
    (let (p1, st1) = then_st (saveQueue st) (\<lambda>_. saveAccounts_operation faults data) st;
         (p2, st2) = then_st p1 (\<lambda>_ s. (Fulfilled (), s\<lparr> cloudPushes := Suc (cloudPushes s) \<rparr>)) st1;
         (p3, st3) = catch_st p2 (\<lambda>err s. (Fulfilled (), s)) st2
     in (p3, st3\<lparr> saveQueue := p3 \<rparr>))"

text \<open>
  The object spreads of \<open>upsertAccount\<close>, field by field:
  \<^verbatim>\<open>{ ...existing, ...account }\<close> takes a field from \<open>account\<close> where it has one, and from
  \<open>existing\<close> otherwise;
  \<^verbatim>\<open>{ loginType: 'mobile', identifier: '', status: 'New', createdAt: now, updatedAt: now, ...account }\<close>
  takes it from the defaults otherwise.
\<close>

definition orElse :: "'a option \<Rightarrow> 'a \<Rightarrow> 'a" where
  "orElse v d = (case v of Some x \<Rightarrow> x | None \<Rightarrow> d)"

definition spreadExisting :: "Account \<Rightarrow> PartialAccount \<Rightarrow> Account" where
  "spreadExisting existing account =
    \<lparr> id' = p_id account,
      platform = p_platform account,
      loginType = orElse (p_loginType account) (loginType existing),
      identifier' = orElse (p_identifier account) (identifier' existing),
      status = orElse (p_status account) (status existing),
      assignedTo = orElse (p_assignedTo account) (assignedTo existing),
      lastLoginAt = orElse (p_lastLoginAt account) (lastLoginAt existing),
      lastValidateAt = orElse (p_lastValidateAt account) (lastValidateAt existing),
      errorCode = orElse (p_errorCode account) (errorCode existing),
      createdAt = orElse (p_createdAt account) (createdAt existing),
      updatedAt = orElse (p_updatedAt account) (updatedAt existing),
      emailConfig = orElse (p_emailConfig account) (emailConfig existing) \<rparr>"

definition spreadDefaults :: "string \<Rightarrow> PartialAccount \<Rightarrow> Account" where
  "spreadDefaults now account =
    \<lparr> id' = p_id account,
      platform = p_platform account,
      loginType = orElse (p_loginType account) Mobile,
      identifier' = orElse (p_identifier account) [],
      status = orElse (p_status account) New,
      assignedTo = orElse (p_assignedTo account) None,
      lastLoginAt = orElse (p_lastLoginAt account) None,
      lastValidateAt = orElse (p_lastValidateAt account) None,
      errorCode = orElse (p_errorCode account) None,
      createdAt = orElse (p_createdAt account) now,
      updatedAt = orElse (p_updatedAt account) now,
      emailConfig = orElse (p_emailConfig account) None \<rparr>"

text \<open>
  \<open>upsertAccount\<close>. \<open>now\<close> is \<^verbatim>\<open>new Date().toISOString()\<close> at the call. The caller gets
  the record once \<open>saveAccounts\<close> has settled.
\<close>

definition upsertAccount :: "Faults \<Rightarrow> string \<Rightarrow> PartialAccount \<Rightarrow> Store \<Rightarrow> Account Promise \<times> Store" where
  "upsertAccount faults now account st =
    (let (loaded, st1) = loadAccounts faults st in
     then_st loaded (\<lambda>data s.
       (let accountId = trim (toLowerCase (p_id account));
            existingIndex = findIndex (\<lambda>a. toLowerCase (id' a) = accountId) (accounts data)
        in case existingIndex of
             Some i \<Rightarrow>
               (let existing = accounts data ! i;
                    updated = (spreadExisting existing account)\<lparr> updatedAt := now \<rparr>;
                    data1 = data\<lparr> accounts := (accounts data)[i := updated] \<rparr>;
                    (saved, s1) = saveAccounts faults data1 s
                in then_st saved (\<lambda>_ s2. (Fulfilled updated, s2)) s1)
           | None \<Rightarrow>
               (let newAccount = (spreadDefaults now account)\<lparr> id' := accountId \<rparr>;
                    data1 = data\<lparr> accounts := accounts data @ [newAccount] \<rparr>;
                    (saved, s1) = saveAccounts faults data1 s
                in then_st saved (\<lambda>_ s2. (Fulfilled newAccount, s2)) s1))) st1)"

text \<open>
  \<open>updateAccountStatus\<close>: the first record whose lower-cased id is the normalized
  \<open>accountId\<close> is changed in place; \<^verbatim>\<open>else if (errorCode)\<close> takes a non-empty string.
\<close>

definition setStatus :: "string \<Rightarrow> AccountStatus \<Rightarrow> string option \<Rightarrow> Account \<Rightarrow> Account" where
  "setStatus now newStatus code account =
    (let a1 = account\<lparr> status := newStatus, updatedAt := now \<rparr> in
     if newStatus = Healthy then a1\<lparr> lastValidateAt := Some now, errorCode := None \<rparr>
     else (case code of
             Some e \<Rightarrow> if e \<noteq> [] then a1\<lparr> errorCode := Some e \<rparr> else a1
           | None \<Rightarrow> a1))"

definition updateAccountStatus ::
  "Faults \<Rightarrow> string \<Rightarrow> string \<Rightarrow> AccountStatus \<Rightarrow> string option \<Rightarrow> Store \<Rightarrow> unit Promise \<times> Store" where
  "updateAccountStatus faults now accountId newStatus code st =
    (let (loaded, st1) = loadAccounts faults st in
     then_st loaded (\<lambda>data s.
       (let nid = trim (toLowerCase accountId) in
        case findIndex (\<lambda>a. toLowerCase (id' a) = nid) (accounts data) of
          Some i \<Rightarrow>
            saveAccounts faults
              (data\<lparr> accounts := (accounts data)[i := setStatus now newStatus code (accounts data ! i)] \<rparr>) s
        | None \<Rightarrow> (Fulfilled (), s))) st1)"

definition updateLastLogin :: "Faults \<Rightarrow> string \<Rightarrow> string \<Rightarrow> Store \<Rightarrow> unit Promise \<times> Store" where
  "updateLastLogin faults now accountId st =
    (let (loaded, st1) = loadAccounts faults st in
     then_st loaded (\<lambda>data s.
       (let nid = trim (toLowerCase accountId) in
        case findIndex (\<lambda>a. toLowerCase (id' a) = nid) (accounts data) of
          Some i \<Rightarrow>
            saveAccounts faults
              (data\<lparr> accounts := (accounts data)
                 [i := (accounts data ! i)\<lparr> lastLoginAt := Some now, lastValidateAt := Some now,
                        status := Healthy, updatedAt := now, errorCode := None \<rparr>] \<rparr>) s
        | None \<Rightarrow> (Fulfilled (), s))) st1)"

text \<open>\<open>deleteAccount\<close>: \<^verbatim>\<open>splice(index, 1)\<close> removes the record at the index found.\<close>

definition deleteAccount :: "Faults \<Rightarrow> string \<Rightarrow> Store \<Rightarrow> bool Promise \<times> Store" where
  "deleteAccount faults accountId st =
    (let (loaded, st1) = loadAccounts faults st in
     then_st loaded (\<lambda>data s.
       (let nid = trim (toLowerCase accountId) in
        case findIndex (\<lambda>a. toLowerCase (id' a) = nid) (accounts data) of
          Some i \<Rightarrow>
            (let (saved, s1) =
                   saveAccounts faults
                     (data\<lparr> accounts := take i (accounts data) @ drop (Suc i) (accounts data) \<rparr>) s
             in then_st saved (\<lambda>_ s2. (Fulfilled True, s2)) s1)
        | None \<Rightarrow> (Fulfilled False, s))) st1)"

section \<open>Cookie cache: adaptation (cookies.ts)\<close>

text \<open>
  A cookie object as \<open>adaptCookiesForShopsy\<close> sees it: the property \<open>domain\<close> it reads
  (a string in every cookie the browser or the cookie file gives), the two properties it
  deletes (absent is \<open>None\<close>), and all the other own properties, which the spread copies.
\<close>

record Cookie =
  domain :: string
  hostOnly :: "bool option"
  session :: "bool option"
  attributes :: "(string \<times> string) list"

definition adaptCookiesForShopsy :: "Cookie list \<Rightarrow> Cookie list" where
  "adaptCookiesForShopsy cookies =
    map (\<lambda>c.
      (let newCookie = c;
           newCookie = newCookie\<lparr> hostOnly := None \<rparr>;
           newCookie = newCookie\<lparr> session := None \<rparr>
       in if includes' (domain c) ''flipkart.com''
          then newCookie\<lparr> domain := ''.shopsy.in'' \<rparr>
          else newCookie)) cookies"

section \<open>Browser context registry (browserManager.ts)\<close>

text \<open>
  The \<^verbatim>\<open>Map<string, BrowserContext>\<close> of the manager, in insertion order; a context is
  its handle. \<open>register\<close> is \<^verbatim>\<open>Map.set\<close>; the listener it installs runs \<open>contextClosed\<close>
  when the context closes.
\<close>

type_synonym Contexts = "(string \<times> nat) list"

fun register :: "string \<Rightarrow> nat \<Rightarrow> Contexts \<Rightarrow> Contexts" where
  "register key ctx [] = [(key, ctx)]"
| "register key ctx ((k, c) # rest) =
    (if k = key then (k, ctx) # rest else (k, c) # register key ctx rest)"

definition contextClosed :: "string \<Rightarrow> Contexts \<Rightarrow> Contexts" where
  "contextClosed key contexts = filter (\<lambda>(k, c). k \<noteq> key) contexts"

definition isActive :: "Contexts \<Rightarrow> string \<Rightarrow> bool" where
  "isActive contexts idPrefix = list_ex (\<lambda>(k, c). startsWith k idPrefix) contexts"

section \<open>Health prober (check/health.ts)\<close>

text \<open>
  Paths are relative to \<^verbatim>\<open>process.cwd()\<close>; \<open>path_join\<close> is \<^verbatim>\<open>path.join\<close> on
  segments that need no normalization.
\<close>

fun path_join :: "string list \<Rightarrow> string" where
  "path_join [] = ''.''"
| "path_join [p] = p"
| "path_join (p # ps) = p @ ''/'' @ path_join ps"

definition DATA_DIR :: string where
  "DATA_DIR = ''data''"

definition PROFILES_DIR :: string where
  "PROFILES_DIR = path_join [DATA_DIR, ''profiles'']"

definition ENCRYPTED_DIR :: string where
  "ENCRYPTED_DIR = path_join [DATA_DIR, ''encrypted'']"

text \<open>
  The result objects \<^verbatim>\<open>{ status, message }\<close> of the prober and of the login flows.
\<close>

record Outcome =
  r_status :: string
  r_message :: string

text \<open>
  What the headless browser does once it is asked to launch on a profile and load a page:
  the launch throws, a later step (new page, navigation, reading the content) throws, or
  the page content arrives. The string of a failure is \<^verbatim>\<open>String(err)\<close>.
\<close>

datatype Probe = LaunchFailed string | PageFailed string | Content string

text \<open>
  The part of the world the prober and the login flows work on: the registry, the map
  \<^verbatim>\<open>activeContexts\<close> of the Flipkart login module (its keys), the paths that exist,
  the profile paths a browser was launched on (in order), and the account store.
\<close>

record World =
  contexts :: Contexts
  activeContexts :: "string list"
  paths :: "string list"
  launches :: "string list"
  store :: Store

definition looksHealthy :: "Platform \<Rightarrow> string \<Rightarrow> bool" where
  "looksHealthy site content =
    (if site = Flipkart then
       (let hasAccountMenu = includes' content ''Account'' \<and> \<not> includes' content ''Login & Signup'';
            hasCartAccess = includes' content ''Cart'';
            noLoginPrompt = \<not> includes' content ''Enter Email/Mobile''
        in hasAccountMenu \<and> hasCartAccess \<and> noLoginPrompt)
     else
       (let hasYouMenu = includes' content ''>You<'' \<or> includes' content ''You</'';
            hasCartAccess = includes' content ''Cart'';
            noLoginPrompt = (\<not> includes' content ''Login'' \<or> includes' content ''Logout'')
        in (hasYouMenu \<or> hasCartAccess) \<and> noLoginPrompt))"

definition checkAccountHealth ::
  "(string \<Rightarrow> string \<Rightarrow> Probe) \<Rightarrow> nat \<Rightarrow> Platform \<Rightarrow> string \<Rightarrow> World \<Rightarrow> Outcome \<times> World" where
  "checkAccountHealth browser ctx site accountId w =
    (let profilePath = path_join [PROFILES_DIR, platformName site, accountId, ''userDataDir''];
         isFlipkartOpen = isActive (contexts w) (''flipkart-'' @ accountId);
         isShopsyOpen = isActive (contexts w) (''shopsy-'' @ accountId)
     in if isFlipkartOpen \<or> isShopsyOpen then
          (\<lparr> r_status = ''Healthy'', r_message = ''Browser session currently active'' \<rparr>, w)
        else if profilePath \<notin> set (paths w) then
          (\<lparr> r_status = ''MISSING_PROFILE'', r_message = ''No local profile found'' \<rparr>, w)
        else
          (let key = platformName site @ ''-'' @ accountId @ ''-health'';
               url = (if site = Flipkart then ''https://www.flipkart.com/'' else ''https://www.shopsy.in/'');
               w1 = w\<lparr> launches := launches w @ [profilePath] \<rparr>;
               closed = w1\<lparr> contexts := contextClosed key (register key ctx (contexts w1)) \<rparr>
           in case browser profilePath url of
                LaunchFailed err \<Rightarrow>
                  (\<lparr> r_status = ''Error'', r_message = ''Check failed: '' @ err \<rparr>, w1)
              | PageFailed err \<Rightarrow>
                  (\<lparr> r_status = ''Error'', r_message = ''Check failed: '' @ err \<rparr>, closed)
              | Content content \<Rightarrow>
                  (if looksHealthy site content
                   then (\<lparr> r_status = ''Healthy'', r_message = ''Session valid'' \<rparr>, closed)
                   else (\<lparr> r_status = ''ActionNeeded'', r_message = ''Session may be expired'' \<rparr>,
                         closed))))"

section \<open>Login flows (login/flipkart.ts, login/shopsy.ts)\<close>

text \<open>
  An exception value: \<^verbatim>\<open>err.name\<close> and \<^verbatim>\<open>err.message\<close>. \<open>String_err\<close> is
  \<^verbatim>\<open>String(err)\<close>, that is \<^verbatim>\<open>Error.prototype.toString\<close>.
\<close>

record JsError =
  e_name :: string
  e_message :: string

definition String_err :: "JsError \<Rightarrow> string" where
  "String_err err =
    (if e_name err = [] then e_message err
     else if e_message err = [] then e_name err
     else e_name err @ '': '' @ e_message err)"

text \<open>
  How the \<^verbatim>\<open>try\<close> block of a login flow ends. It drives the browser through many
  steps whose failures it swallows; what the enclosing function does next depends only on
  whether the block returned early (Flipkart only: the session was still valid), reached
  its last statements (cookies captured, context closed, profile saved, then
  \<open>updateLastLogin\<close>), or threw. The launch stands before the \<^verbatim>\<open>try\<close>: it gives a
  context or throws.
\<close>

datatype TryBlock = AlreadyLoggedIn | Completed | Threw JsError

definition loginKey :: "string \<Rightarrow> Platform \<Rightarrow> string" where
  "loginKey accountId site = accountId @ ''-'' @ platformName site @ ''-login''"

text \<open>
  The context of a login flow closes: the listener of the registry removes its key, and
  (Flipkart) the listener of the login module removes the account from \<open>activeContexts\<close>.
\<close>

definition closeLogin :: "Platform \<Rightarrow> string \<Rightarrow> World \<Rightarrow> World" where
  "closeLogin site accountId w =
    w\<lparr> contexts := contextClosed (loginKey accountId site) (contexts w),
       activeContexts :=
         (if site = Flipkart then filter (\<lambda>k. k \<noteq> accountId) (activeContexts w)
          else activeContexts w) \<rparr>"

text \<open>
  The last statements of the \<^verbatim>\<open>try\<close> block that touch this state:
  \<^verbatim>\<open>await context.close(); ...; await updateLastLogin(accountId)\<close>. The result is
  the error thrown, if any.
\<close>

definition finishLogin ::
  "Faults \<Rightarrow> string \<Rightarrow> Platform \<Rightarrow> string \<Rightarrow> World \<Rightarrow> JsError option \<times> World" where
  "finishLogin faults now site accountId w =
    (let w1 = closeLogin site accountId w in
     case updateLastLogin faults now accountId (store w1) of
       (Rejected e, st1) \<Rightarrow> (Some \<lparr> e_name = ''Error'', e_message = e \<rparr>, w1\<lparr> store := st1 \<rparr>)
     | (Fulfilled u, st1) \<Rightarrow> (None, w1\<lparr> store := st1 \<rparr>))"

text \<open>
  The statements both \<^verbatim>\<open>catch\<close> blocks end with:
  \<^verbatim>\<open>await updateAccountStatus(accountId, 'Error', String(err)); context.close(); throw err\<close>.
\<close>

definition failLogin ::
  "Faults \<Rightarrow> string \<Rightarrow> Platform \<Rightarrow> string \<Rightarrow> JsError \<Rightarrow> World \<Rightarrow> (JsError + Outcome) \<times> World" where
  "failLogin faults now site accountId err w =
    (case updateAccountStatus faults now accountId Error (Some (String_err err)) (store w) of
       (Rejected e, st1) \<Rightarrow> (Inl \<lparr> e_name = ''Error'', e_message = e \<rparr>, w\<lparr> store := st1 \<rparr>)
     | (Fulfilled u, st1) \<Rightarrow> (Inl err, closeLogin site accountId (w\<lparr> store := st1 \<rparr>)))"

text \<open>
  \<open>loginFlipkart\<close>. \<open>pageOpen\<close> says whether a context already held for the account
  still has its first page open; \<open>launch\<close> is what \<^verbatim>\<open>launchPersistentContext\<close> gives.
  The \<^verbatim>\<open>catch\<close> block first looks for the word \<^verbatim>\<open>closed\<close> in the message.
\<close>

definition loginFlipkart_catch ::
  "Faults \<Rightarrow> string \<Rightarrow> string \<Rightarrow> JsError \<Rightarrow> World \<Rightarrow> (JsError + Outcome) \<times> World" where
  "loginFlipkart_catch faults now accountId err w =
    (if includes' (e_message err) ''closed'' \<or> includes' (e_message err) ''browser has been closed''
     then (Inr \<lparr> r_status = ''cancelled'', r_message = ''Browser closed by user'' \<rparr>,
           closeLogin Flipkart accountId w)
     else failLogin faults now Flipkart accountId err w)"

definition loginFlipkart ::
  "Faults \<Rightarrow> string \<Rightarrow> bool \<Rightarrow> JsError + nat \<Rightarrow> TryBlock \<Rightarrow> string \<Rightarrow> bool \<Rightarrow> World
     \<Rightarrow> (JsError + Outcome) \<times> World" where
  "loginFlipkart faults now pageOpen launch block accountId keepOpen w =
    (if accountId \<in> set (activeContexts w) \<and> pageOpen then
       (Inr \<lparr> r_status = ''success'', r_message = ''Browser already open'' \<rparr>, w)
     else
       (let w0 = w\<lparr> activeContexts := filter (\<lambda>k. k \<noteq> accountId) (activeContexts w) \<rparr>;
            profilePath = path_join [PROFILES_DIR, ''flipkart'', accountId, ''userDataDir''];
            w1 = w0\<lparr> launches := launches w0 @ [profilePath] \<rparr>
        in case launch of
             Inl err \<Rightarrow> (Inl err, w1)
           | Inr ctx \<Rightarrow>
               (let w2 = w1\<lparr> activeContexts := activeContexts w1 @ [accountId],
                             contexts := register (loginKey accountId Flipkart) ctx (contexts w1) \<rparr>
                in case block of
                     AlreadyLoggedIn \<Rightarrow>
                       (Inr \<lparr> r_status = ''success'', r_message = ''Already logged in'' \<rparr>,
                        if \<not> keepOpen then closeLogin Flipkart accountId w2 else w2)
                   | Completed \<Rightarrow>
                       (case finishLogin faults now Flipkart accountId w2 of
                          (None, w3) \<Rightarrow>
                            (Inr \<lparr> r_status = ''success'', r_message = ''Login completed'' \<rparr>, w3)
                        | (Some err, w3) \<Rightarrow> loginFlipkart_catch faults now accountId err w3)
                   | Threw err \<Rightarrow> loginFlipkart_catch faults now accountId err w2)))"

text \<open>
  \<open>loginShopsy\<close>. Its \<^verbatim>\<open>try\<close> block has no early return (the test of
  \<^verbatim>\<open>isLoggedIn\<close> has an empty body): it ends at its last statement (\<open>None\<close>) or it
  throws. Its \<^verbatim>\<open>catch\<close> block has the three closing statements only.
\<close>

definition loginShopsy ::
  "Faults \<Rightarrow> string \<Rightarrow> JsError + nat \<Rightarrow> JsError option \<Rightarrow> string \<Rightarrow> World
     \<Rightarrow> (JsError + Outcome) \<times> World" where
  "loginShopsy faults now launch thrown accountId w =
    (let profilePath = path_join [PROFILES_DIR, ''shopsy'', accountId, ''userDataDir''];
         w1 = w\<lparr> launches := launches w @ [profilePath] \<rparr>
     in case launch of
          Inl err \<Rightarrow> (Inl err, w1)
        | Inr ctx \<Rightarrow>
            (let w2 = w1\<lparr> contexts := register (loginKey accountId Shopsy) ctx (contexts w1) \<rparr>
             in case thrown of
                  None \<Rightarrow>
                    (case finishLogin faults now Shopsy accountId w2 of
                       (None, w3) \<Rightarrow>
                         (Inr \<lparr> r_status = ''success'',
                                r_message = ''Login completed and profile saved'' \<rparr>, w3)
                     | (Some err, w3) \<Rightarrow> failLogin faults now Shopsy accountId err w3)
                | Some err \<Rightarrow> failLogin faults now Shopsy accountId err w2))"

section \<open>Cryptographic vault (crypto.ts)\<close>

text \<open>
  A \<^verbatim>\<open>Buffer\<close> is a list of bytes. \<open>toHex\<close> is \<^verbatim>\<open>buf.toString('hex')\<close>: two lower-case
  digits for each byte. \<open>fromHex\<close> is \<^verbatim>\<open>Buffer.from(s, 'hex')\<close>: it reads pairs of digits
  of either case and stops at the first pair that is not two digits.
\<close>

type_synonym Buffer = "8 word list"

definition hexDigits :: string where
  "hexDigits = ''0123456789abcdef''"

definition toHex :: "Buffer \<Rightarrow> string" where
  "toHex buf = concat (map (\<lambda>b. [hexDigits ! (unat b div 16), hexDigits ! (unat b mod 16)]) buf)"

definition hexValue :: "char \<Rightarrow> nat option" where
  "hexValue c =
    map_of (zip ''0123456789abcdefABCDEF''
                [0, 1, 2, 3, 4, 5, 6, 7, 8, 9, 10, 11, 12, 13, 14, 15, 10, 11, 12, 13, 14, 15]) c"

fun fromHex :: "string \<Rightarrow> Buffer" where
  "fromHex (c1 # c2 # rest) =
    (case hexValue c1 of
       None \<Rightarrow> []
     | Some h \<Rightarrow>
         (case hexValue c2 of
            None \<Rightarrow> []
          | Some l \<Rightarrow> of_nat (16 * h + l) # fromHex rest))"
| "fromHex [c1] = []"
| "fromHex [] = []"

text \<open>
  The functions of Node's \<^verbatim>\<open>crypto\<close> module the repository calls. They are not part of
  the repository, so they are parameters of the model:
  \<^item> \<open>pbkdf2Sync password salt iterations keylen digest\<close>;
  \<^item> \<open>gcmEncrypt key iv data\<close>: \<^verbatim>\<open>createCipheriv('aes-256-gcm', key, iv)\<close>, then
    \<^verbatim>\<open>update(data)\<close>, \<^verbatim>\<open>final()\<close> and \<^verbatim>\<open>getAuthTag()\<close>; it gives the ciphertext and
    the tag, or throws;
  \<^item> \<open>gcmDecrypt key iv authTag ciphertext\<close>: \<^verbatim>\<open>createDecipheriv\<close>,
    \<^verbatim>\<open>setAuthTag(authTag)\<close>, \<^verbatim>\<open>update(ciphertext)\<close> and \<^verbatim>\<open>final()\<close>; it gives the
    plaintext, or throws (\<^verbatim>\<open>final()\<close> throws when the tag does not verify).
  A thrown error is its message.
\<close>

record Crypto =
  pbkdf2Sync :: "string \<Rightarrow> Buffer \<Rightarrow> nat \<Rightarrow> nat \<Rightarrow> string \<Rightarrow> Buffer"
  gcmEncrypt :: "Buffer \<Rightarrow> Buffer \<Rightarrow> Buffer \<Rightarrow> string + (Buffer \<times> Buffer)"
  gcmDecrypt :: "Buffer \<Rightarrow> Buffer \<Rightarrow> Buffer \<Rightarrow> Buffer \<Rightarrow> string + Buffer"

text \<open>
  What the development takes from the documentation of the library: \<open>pbkdf2Sync\<close> gives
  \<open>keylen\<close> bytes; with a key of 32 bytes and an initialization vector that is not empty,
  AES-256-GCM encrypts any data, its tag has 16 bytes (the length \<open>crypto.ts\<close> asks for and
  the default), and decrypting the ciphertext with the same key, vector and tag gives the
  data back.
\<close>

definition nodeCrypto :: "Crypto \<Rightarrow> bool" where
  "nodeCrypto lib \<longleftrightarrow>
    (\<forall>password saltBuf iterations keylen digest.
       length (pbkdf2Sync lib password saltBuf iterations keylen digest) = keylen)
    \<and> (\<forall>key ivBuf data. length key = 32 \<and> ivBuf \<noteq> [] \<longrightarrow>
         (\<exists>ct tag. gcmEncrypt lib key ivBuf data = Inr (ct, tag)
            \<and> length tag = 16
            \<and> gcmDecrypt lib key ivBuf tag ct = Inr data))"

definition KEY_LENGTH :: nat where "KEY_LENGTH = 32"
definition IV_LENGTH :: nat where "IV_LENGTH = 16"
definition AUTH_TAG_LENGTH :: nat where "AUTH_TAG_LENGTH = 16"
definition SALT_LENGTH :: nat where "SALT_LENGTH = 32"
definition PBKDF2_ITERATIONS :: nat where "PBKDF2_ITERATIONS = 100000"
definition PBKDF2_DIGEST :: string where "PBKDF2_DIGEST = ''sha512''"

record EncryptedData =
  iv :: string
  authTag :: string
  ciphertext :: string
  salt :: string

definition deriveKeyFromPassphrase :: "Crypto \<Rightarrow> string \<Rightarrow> Buffer \<Rightarrow> Buffer" where
  "deriveKeyFromPassphrase lib passphrase saltBuf =
    pbkdf2Sync lib passphrase saltBuf PBKDF2_ITERATIONS KEY_LENGTH PBKDF2_DIGEST"

text \<open>
  \<open>encrypt\<close>. \<open>ivBuf\<close> is what \<^verbatim>\<open>crypto.randomBytes(IV_LENGTH)\<close> gave at this call.
\<close>

definition encrypt :: "Crypto \<Rightarrow> Buffer \<Rightarrow> Buffer \<Rightarrow> Buffer \<Rightarrow> string + EncryptedData" where
  "encrypt lib ivBuf data key =
    (case gcmEncrypt lib key ivBuf data of
       Inl err \<Rightarrow> Inl err
     | Inr (ct, tag) \<Rightarrow>
         Inr \<lparr> iv = toHex ivBuf, authTag = toHex tag, ciphertext = toHex ct, salt = [] \<rparr>)"

definition decrypt :: "Crypto \<Rightarrow> EncryptedData \<Rightarrow> Buffer \<Rightarrow> string + Buffer" where
  "decrypt lib encrypted key =
    (let ivBuf = fromHex (iv encrypted);
         tag = fromHex (authTag encrypted);
         ct = fromHex (ciphertext encrypted)
     in gcmDecrypt lib key ivBuf tag ct)"

text \<open>
  \<open>encryptWithPassphrase\<close>. \<open>saltBuf\<close> is what \<open>generateSalt\<close> (that is
  \<^verbatim>\<open>crypto.randomBytes(SALT_LENGTH)\<close>) gave at this call.
\<close>

definition encryptWithPassphrase ::
  "Crypto \<Rightarrow> Buffer \<Rightarrow> Buffer \<Rightarrow> Buffer \<Rightarrow> string \<Rightarrow> string + EncryptedData" where
  "encryptWithPassphrase lib saltBuf ivBuf data passphrase =
    (let key = deriveKeyFromPassphrase lib passphrase saltBuf in
     case encrypt lib ivBuf data key of
       Inl err \<Rightarrow> Inl err
     | Inr encrypted \<Rightarrow> Inr (encrypted\<lparr> salt := toHex saltBuf \<rparr>))"

definition decryptWithPassphrase :: "Crypto \<Rightarrow> EncryptedData \<Rightarrow> string \<Rightarrow> string + Buffer" where
  "decryptWithPassphrase lib encrypted passphrase =
    (let saltBuf = fromHex (salt encrypted);
         key = deriveKeyFromPassphrase lib passphrase saltBuf
     in decrypt lib encrypted key)"

section \<open>Profile vault (profiles/store.ts)\<close>

definition vault_AUTH_TAG_LENGTH :: nat where "vault_AUTH_TAG_LENGTH = 16"
definition vault_IV_LENGTH :: nat where "vault_IV_LENGTH = 12"
definition vault_SALT_LENGTH :: nat where "vault_SALT_LENGTH = 16"
definition vault_KEY_LENGTH :: nat where "vault_KEY_LENGTH = 32"

text \<open>
  \<open>getKey\<close>. \<open>globalPassphrase\<close> is the module variable (\<open>None\<close> for \<^verbatim>\<open>null\<close>); an empty
  string is falsy too.
\<close>

definition getKey :: "Crypto \<Rightarrow> string option \<Rightarrow> Buffer \<Rightarrow> string + Buffer" where
  "getKey lib globalPassphrase saltBuf =
    (case globalPassphrase of
       None \<Rightarrow> Inl ''Global passphrase not set. Cannot encrypt/decrypt.''
     | Some pass \<Rightarrow>
         if pass = [] then Inl ''Global passphrase not set. Cannot encrypt/decrypt.''
         else Inr (pbkdf2Sync lib pass saltBuf 100000 vault_KEY_LENGTH ''sha256''))"

text \<open>
  The part of the file system the vault works on: the content of each file, and for each
  directory the archive \<^verbatim>\<open>AdmZip\<close> makes of it (a directory is given by its archive, and
  unpacking an archive gives that directory).
\<close>

record FileSystem =
  fileAt :: "string \<Rightarrow> Buffer option"
  dirAt :: "string \<Rightarrow> Buffer option"

text \<open>\<^verbatim>\<open>buf.subarray(start, end)\<close> for indices that are not negative.\<close>

definition subarray :: "Buffer \<Rightarrow> nat \<Rightarrow> nat \<Rightarrow> Buffer" where
  "subarray buf start end' = take (end' - start) (drop start buf)"

text \<open>
  \<open>saveProfileToDisk\<close>. \<open>saltBuf\<close> and \<open>ivBuf\<close> are what the two calls of
  \<^verbatim>\<open>crypto.randomBytes\<close> gave. The first, streamed encryption writes to the path that
  \<^verbatim>\<open>fs.writeFile(encPath, finalBuffer)\<close> overwrites after the stream has finished, so the
  model keeps the second one. Where the function throws after the archive was written, the
  archive stays on disk.
\<close>

definition saveProfileToDisk ::
  "Crypto \<Rightarrow> string option \<Rightarrow> Buffer \<Rightarrow> Buffer \<Rightarrow> string \<Rightarrow> string \<Rightarrow> FileSystem
     \<Rightarrow> (string + string) \<times> FileSystem" where
  "saveProfileToDisk lib globalPassphrase saltBuf ivBuf site accountId fs =
    (let accId = trim (toLowerCase accountId);
         profilePath = path_join [PROFILES_DIR, site, accId, ''userDataDir''];
         zipPath = path_join [ENCRYPTED_DIR, site, accId @ ''.zip''];
         encPath = path_join [ENCRYPTED_DIR, site, accId @ ''.zip.enc'']
     in case dirAt fs profilePath of
          None \<Rightarrow> (Inl (''Profile not found at '' @ profilePath), fs)
        | Some archive \<Rightarrow>
            (let fs1 = fs\<lparr> fileAt := (fileAt fs)(zipPath \<mapsto> archive) \<rparr> in
             case getKey lib globalPassphrase saltBuf of
               Inl err \<Rightarrow> (Inl err, fs1)
             | Inr key \<Rightarrow>
                 (let zipBuffer = archive in
                  case gcmEncrypt lib key ivBuf zipBuffer of
                    Inl err \<Rightarrow> (Inl err, fs1)
                  | Inr (encrypted, tag) \<Rightarrow>
                      (let finalBuffer = saltBuf @ ivBuf @ tag @ encrypted;
                           fs2 = fs1\<lparr> fileAt := (fileAt fs1)(encPath \<mapsto> finalBuffer) \<rparr>;
                           fs3 = fs2\<lparr> fileAt := (fileAt fs2)(zipPath := None) \<rparr>
                       in (Inr encPath, fs3)))))"

text \<open>
  \<open>restoreProfileFromDisk\<close>. \<open>parseBackup\<close> is its four \<^verbatim>\<open>subarray\<close> calls.
\<close>

definition parseBackup :: "Buffer \<Rightarrow> Buffer \<times> Buffer \<times> Buffer \<times> Buffer" where
  "parseBackup fileData =
    (let saltBuf = subarray fileData 0 vault_SALT_LENGTH;
         ivBuf = subarray fileData vault_SALT_LENGTH (vault_SALT_LENGTH + vault_IV_LENGTH);
         tag = subarray fileData (vault_SALT_LENGTH + vault_IV_LENGTH)
                 (vault_SALT_LENGTH + vault_IV_LENGTH + vault_AUTH_TAG_LENGTH);
         encryptedText = drop (vault_SALT_LENGTH + vault_IV_LENGTH + vault_AUTH_TAG_LENGTH) fileData
     in (saltBuf, ivBuf, tag, encryptedText))"

definition restoreProfileFromDisk ::
  "Crypto \<Rightarrow> string option \<Rightarrow> string \<Rightarrow> string \<Rightarrow> FileSystem \<Rightarrow> (string + string) \<times> FileSystem" where
  "restoreProfileFromDisk lib globalPassphrase site accountId fs =
    (let accId = trim (toLowerCase accountId);
         encPath = path_join [ENCRYPTED_DIR, site, accId @ ''.zip.enc''];
         profileDir = path_join [PROFILES_DIR, site, accId];
         profilePath = path_join [profileDir, ''userDataDir'']
     in case fileAt fs encPath of
          None \<Rightarrow> (Inl (''Encrypted profile not found at '' @ encPath), fs)
        | Some fileData \<Rightarrow>
            (case parseBackup fileData of
               (saltBuf, ivBuf, tag, encryptedText) \<Rightarrow>
                 (case getKey lib globalPassphrase saltBuf of
                    Inl err \<Rightarrow> (Inl err, fs)
                  | Inr key \<Rightarrow>
                      (case gcmDecrypt lib key ivBuf tag encryptedText of
                         Inl err \<Rightarrow> (Inl err, fs)
                       | Inr decrypted \<Rightarrow>
                           (let tempZipPath = path_join [ENCRYPTED_DIR, site, accountId @ ''_temp.zip''];
                                fs1 = fs\<lparr> fileAt := (fileAt fs)(tempZipPath \<mapsto> decrypted) \<rparr>;
                                fs2 = fs1\<lparr> dirAt := (dirAt fs1)(profilePath \<mapsto> decrypted) \<rparr>;
                                fs3 = fs2\<lparr> fileAt := (fileAt fs2)(tempZipPath := None) \<rparr>
                            in (Inr profilePath, fs3))))))"

section \<open>Fixtures\<close>

text \<open>
  A disk that works, a disk on which every write is refused, a store before its first
  use, and the partial record that carries only the two required fields.
\<close>

definition noFaults :: Faults where
  "noFaults = \<lparr> loadWrite = Written, saveWrite = Written, saveMove = Moved \<rparr>"

definition readOnlyDisk :: Faults where
  "readOnlyDisk = \<lparr> loadWrite = WriteFailed, saveWrite = WriteFailed, saveMove = MoveFailed \<rparr>"

definition emptyStore :: Store where
  "emptyStore =
    \<lparr> accountsFile = Missing, tmpFile = Missing, saveQueue = Fulfilled (), cloudPushes = 0 \<rparr>"

definition onlyId :: "string \<Rightarrow> Platform \<Rightarrow> PartialAccount" where
  "onlyId accountId site =
    \<lparr> p_id = accountId, p_platform = site, p_loginType = None, p_identifier = None,
      p_status = None, p_assignedTo = None, p_lastLoginAt = None, p_lastValidateAt = None,
      p_errorCode = None, p_createdAt = None, p_updatedAt = None, p_emailConfig = None \<rparr>"

definition abcAccount :: Account where
  "abcAccount =
    \<lparr> id' = ''abc'', platform = Flipkart, loginType = Email, identifier' = ''a@example.org'',
      status = Healthy, assignedTo = None, lastLoginAt = Some ''2024-05-01T00:00:00.000Z'',
      lastValidateAt = Some ''2024-05-01T00:00:00.000Z'', errorCode = None,
      createdAt = ''2024-01-01T00:00:00.000Z'', updatedAt = ''2024-05-01T00:00:00.000Z'',
      emailConfig = None \<rparr>"


definition acc1 :: "Platform \<Rightarrow> Account" where
  "acc1 site =
    \<lparr> id' = ''acc1'', platform = site, loginType = Mobile, identifier' = ''9000000001'',
      status = Healthy, assignedTo = None, lastLoginAt = Some ''2024-05-01T00:00:00.000Z'',
      lastValidateAt = Some ''2024-05-01T00:00:00.000Z'', errorCode = None,
      createdAt = ''2024-01-01T00:00:00.000Z'', updatedAt = ''2024-05-01T00:00:00.000Z'',
      emailConfig = None \<rparr>"

definition quietWorld :: "Platform \<Rightarrow> World" where
  "quietWorld site =
    \<lparr> contexts = [], activeContexts = [],
      paths = [''data/profiles/flipkart/acc1/userDataDir'', ''data/profiles/shopsy/acc1/userDataDir''],
      launches = [],
      store = emptyStore\<lparr> accountsFile := Document \<lparr> accounts = [acc1 site] \<rparr> \<rparr> \<rparr>"

definition closedError :: JsError where
  "closedError =
    \<lparr> e_name = ''Error'',
      e_message = ''page.waitForSelector: Target page, context or browser has been closed'' \<rparr>"

text \<open>
  A stand-in for the library, small enough to run: the key is the password, then the
  salt, cut or padded with zeros to \<open>keylen\<close> bytes; encryption adds one to every byte;
  the tag is the first 16 bytes of the key. It meets \<open>nodeCrypto\<close> and is used only to
  show that the hypotheses of the theorems below can hold together.
\<close>

definition toyCrypto :: Crypto where
  "toyCrypto =
    \<lparr> pbkdf2Sync = (\<lambda>password saltBuf iterations keylen digest.
         take keylen (map (\<lambda>c. of_nat (of_char c)) password @ saltBuf @ replicate keylen 0)),
      gcmEncrypt = (\<lambda>key ivBuf data.
         Inr (map (\<lambda>b. b + 1) data, take 16 (key @ replicate 16 0))),
      gcmDecrypt = (\<lambda>key ivBuf tag ct.
         if tag = take 16 (key @ replicate 16 0) then Inr (map (\<lambda>b. b - 1) ct)
         else Inl ''Unsupported state or unable to authenticate data'') \<rparr>"

definition salt32 :: Buffer where
  "salt32 = replicate 32 7"

definition iv16 :: Buffer where
  "iv16 = replicate 16 9"

definition salt16 :: Buffer where
  "salt16 = replicate 16 7"

definition iv12 :: Buffer where
  "iv12 = replicate 12 9"

definition profileDisk :: FileSystem where
  "profileDisk =
    \<lparr> fileAt = Map.empty,
      dirAt = [''data/profiles/flipkart/acc1/userDataDir'' \<mapsto> [80, 75, 3, 4]] \<rparr>"

section \<open>Properties of the fingerprint generator\<close>

lemma length_MOBILE_DEVICES: "length (MOBILE_DEVICES devices) = 4"
  by (simp add: MOBILE_DEVICES_def)

lemma length_DESKTOP_USER_AGENTS: "length DESKTOP_USER_AGENTS = 3"
  by (simp add: DESKTOP_USER_AGENTS_def)

lemma charCodeSum_sum_list: "charCodeSum seed = sum_list (map of_char seed)"
proof -
  have "fold (\<lambda>c sum. sum + of_char c) seed a = a + sum_list (map of_char seed)" for a :: nat
    by (induction seed arbitrary: a) simp_all
  then show ?thesis by (simp add: charCodeSum_def)
qed

text \<open>
  C7. \<open>generateFingerprint\<close> is a function of \<open>(platform, seed)\<close> alone (the device table
  being the fixed constant of the library), and it reads the seed only through the sum of
  its character codes modulo the pool size: two seeds whose sums are congruent modulo 4
  give the same Shopsy fingerprint, and two seeds whose sums are congruent modulo 3 give
  the same Flipkart fingerprint.
\<close>

theorem generateFingerprint_deterministic_collision:
  "(platform1 = platform2 \<and> seed1 = seed2 \<longrightarrow>
      generateFingerprint devices platform1 seed1 = generateFingerprint devices platform2 seed2)
   \<and> (charCodeSum seed1 mod 4 = charCodeSum seed2 mod 4 \<longrightarrow>
      generateFingerprint devices Shopsy seed1 = generateFingerprint devices Shopsy seed2)
   \<and> (charCodeSum seed1 mod 3 = charCodeSum seed2 mod 3 \<longrightarrow>
      generateFingerprint devices Flipkart seed1 = generateFingerprint devices Flipkart seed2)"
  by (simp add: generateFingerprint_def Let_def length_MOBILE_DEVICES length_DESKTOP_USER_AGENTS)

theorem generateFingerprint_collision_witness:
  "charCodeSum ''acc1'' mod 4 = charCodeSum ''acc5'' mod 4
   \<and> (\<forall>devices. generateFingerprint devices Shopsy ''acc1'' = generateFingerprint devices Shopsy ''acc5'')
   \<and> charCodeSum ''acc1'' mod 3 = charCodeSum ''acc4'' mod 3
   \<and> (\<forall>devices. generateFingerprint devices Flipkart ''acc1'' = generateFingerprint devices Flipkart ''acc4'')
   \<and> charCodeSum ''acc1'' mod 4 \<noteq> charCodeSum ''acc2'' mod 4"
proof -
  have s4: "charCodeSum ''acc1'' mod 4 = charCodeSum ''acc5'' mod 4"
    by (simp add: charCodeSum_def)
  have s3: "charCodeSum ''acc1'' mod 3 = charCodeSum ''acc4'' mod 3"
    by (simp add: charCodeSum_def)
  have n4: "charCodeSum ''acc1'' mod 4 \<noteq> charCodeSum ''acc2'' mod 4"
    by (simp add: charCodeSum_def)
  from s4 s3 n4 show ?thesis
    using generateFingerprint_deterministic_collision [of Shopsy Shopsy "''acc1''" "''acc5''"]
      generateFingerprint_deterministic_collision [of Flipkart Flipkart "''acc1''" "''acc4''"]
    by blast
qed

section \<open>Properties of the account store\<close>

subsection \<open>The save queue\<close>

lemma saveAccounts_fulfilled: "fst (saveAccounts faults data st) = Fulfilled ()"
  by (cases "saveQueue st"; cases "saveWrite faults"; cases "saveMove faults")
     (simp_all add: saveAccounts_def saveAccounts_operation_def Let_def)

lemma saveAccounts_not_persisted:
  "saveWrite faults \<noteq> Written \<or> saveMove faults \<noteq> Moved \<Longrightarrow>
     accountsFile (snd (saveAccounts faults data st)) = accountsFile st
     \<or> accountsFile (snd (saveAccounts faults data st)) = Missing"
  by (cases "saveQueue st"; cases "saveWrite faults"; cases "saveMove faults")
     (simp_all add: saveAccounts_def saveAccounts_operation_def Let_def)

lemma saveAccounts_persists:
  "saveQueue st = Fulfilled () \<Longrightarrow> saveWrite faults = Written \<Longrightarrow> saveMove faults = Moved \<Longrightarrow>
     accountsFile (snd (saveAccounts faults data st)) = Document data"
  by (simp add: saveAccounts_def saveAccounts_operation_def Let_def)

lemma loadAccounts_saveQueue: "saveQueue (snd (loadAccounts faults st)) = Fulfilled ()"
  by (simp add: loadAccounts_def Let_def split: prod.splits)

lemma upsertAccount_fulfilled:
  assumes "fst (loadAccounts faults st) = Fulfilled loaded"
  shows "\<exists>r. fst (upsertAccount faults now account st) = Fulfilled r"
  using assms
  by (simp add: upsertAccount_def Let_def case_prod_unfold saveAccounts_fulfilled
        split: option.splits)

lemma updateAccountStatus_fulfilled:
  assumes "fst (loadAccounts faults st) = Fulfilled loaded"
  shows "fst (updateAccountStatus faults now accountId newStatus code st) = Fulfilled ()"
  using assms
  by (auto simp: updateAccountStatus_def Let_def saveAccounts_fulfilled split: prod.splits option.splits)

lemma deleteAccount_fulfilled:
  assumes "fst (loadAccounts faults st) = Fulfilled loaded"
  shows "\<exists>b. fst (deleteAccount faults accountId st) = Fulfilled b"
  using assms
  by (auto simp: deleteAccount_def Let_def case_prod_unfold saveAccounts_fulfilled
        split: option.splits)

lemma upsertAccount_rejected:
  assumes "fst (loadAccounts faults st) = Rejected err"
  shows "fst (upsertAccount faults now account st) = Rejected err"
  using assms by (simp add: upsertAccount_def case_prod_unfold)

lemma updateAccountStatus_rejected:
  assumes "fst (loadAccounts faults st) = Rejected err"
  shows "fst (updateAccountStatus faults now accountId newStatus code st) = Rejected err"
  using assms by (simp add: updateAccountStatus_def case_prod_unfold)

lemma deleteAccount_rejected:
  assumes "fst (loadAccounts faults st) = Rejected err"
  shows "fst (deleteAccount faults accountId st) = Rejected err"
  using assms by (simp add: deleteAccount_def case_prod_unfold)

text \<open>
  C10, as the code has it. The promise \<open>saveAccounts\<close> returns is always fulfilled,
  whatever the disk does: a write or a move that rejects is caught inside the queue, and
  the accounts file is then what it was before, or gone (the move removes it before it
  renames the temporary file), so the document has not reached it. A mutating operation
  settles as its own \<open>loadAccounts\<close> does: when the load is fulfilled, the operation
  reports success to its caller (\<open>upsertAccount\<close> a record, \<open>updateAccountStatus\<close> nothing,
  \<open>deleteAccount\<close> a boolean), whether or not the document reached the disk; when the load
  is rejected, the operation is rejected with the same error and saves nothing.
\<close>

theorem saveAccounts_always_resolves:
  "fst (saveAccounts faults data st) = Fulfilled ()
   \<and> (saveWrite faults \<noteq> Written \<or> saveMove faults \<noteq> Moved \<longrightarrow>
        accountsFile (snd (saveAccounts faults data st)) = accountsFile st
        \<or> accountsFile (snd (saveAccounts faults data st)) = Missing)
   \<and> (fst (loadAccounts faults st) = Fulfilled loaded \<longrightarrow>
        (\<exists>r. fst (upsertAccount faults now account st) = Fulfilled r)
        \<and> fst (updateAccountStatus faults now accountId newStatus code st) = Fulfilled ()
        \<and> (\<exists>b. fst (deleteAccount faults accountId st) = Fulfilled b))
   \<and> (fst (loadAccounts faults st) = Rejected err \<longrightarrow>
        fst (upsertAccount faults now account st) = Rejected err
        \<and> fst (updateAccountStatus faults now accountId newStatus code st) = Rejected err
        \<and> fst (deleteAccount faults accountId st) = Rejected err)"
proof (intro conjI impI)
  show "fst (saveAccounts faults data st) = Fulfilled ()"
    by (rule saveAccounts_fulfilled)
next
  assume "saveWrite faults \<noteq> Written \<or> saveMove faults \<noteq> Moved"
  then show "accountsFile (snd (saveAccounts faults data st)) = accountsFile st
        \<or> accountsFile (snd (saveAccounts faults data st)) = Missing"
    by (rule saveAccounts_not_persisted)
next
  assume "fst (loadAccounts faults st) = Fulfilled loaded"
  then show "\<exists>r. fst (upsertAccount faults now account st) = Fulfilled r"
    by (rule upsertAccount_fulfilled)
next
  assume "fst (loadAccounts faults st) = Fulfilled loaded"
  then show "fst (updateAccountStatus faults now accountId newStatus code st) = Fulfilled ()"
    by (rule updateAccountStatus_fulfilled)
next
  assume "fst (loadAccounts faults st) = Fulfilled loaded"
  then show "\<exists>b. fst (deleteAccount faults accountId st) = Fulfilled b"
    by (rule deleteAccount_fulfilled)
next
  assume "fst (loadAccounts faults st) = Rejected err"
  then show "fst (upsertAccount faults now account st) = Rejected err"
    by (rule upsertAccount_rejected)
next
  assume "fst (loadAccounts faults st) = Rejected err"
  then show "fst (updateAccountStatus faults now accountId newStatus code st) = Rejected err"
    by (rule updateAccountStatus_rejected)
next
  assume "fst (loadAccounts faults st) = Rejected err"
  then show "fst (deleteAccount faults accountId st) = Rejected err"
    by (rule deleteAccount_rejected)
qed

text \<open>
  The store holds an empty document and every write is refused. The load reads the
  document without writing, so the save is reached and fails, and the operations still
  report success: \<open>upsertAccount\<close> returns the record \<open>abc\<close>, and the file still holds the
  empty document.
\<close>

theorem saveAccounts_always_resolves_witness:
  "saveWrite readOnlyDisk \<noteq> Written
   \<and> fst (loadAccounts readOnlyDisk (emptyStore\<lparr> accountsFile := Document \<lparr> accounts = [] \<rparr> \<rparr>))
       = Fulfilled \<lparr> accounts = [] \<rparr>
   \<and> fst (saveAccounts readOnlyDisk \<lparr> accounts = [] \<rparr>
             (emptyStore\<lparr> accountsFile := Document \<lparr> accounts = [] \<rparr> \<rparr>))
       = Fulfilled ()
   \<and> (\<exists>r. fst (upsertAccount readOnlyDisk ''2024-06-01T00:00:00.000Z'' (onlyId ''abc'' Flipkart)
                  (emptyStore\<lparr> accountsFile := Document \<lparr> accounts = [] \<rparr> \<rparr>))
           = Fulfilled r)
   \<and> fst (updateAccountStatus readOnlyDisk ''2024-06-01T00:00:00.000Z'' ''abc'' Healthy None
             (emptyStore\<lparr> accountsFile := Document \<lparr> accounts = [] \<rparr> \<rparr>))
       = Fulfilled ()
   \<and> accountsFile (snd (upsertAccount readOnlyDisk ''2024-06-01T00:00:00.000Z''
                  (onlyId ''abc'' Flipkart)
                  (emptyStore\<lparr> accountsFile := Document \<lparr> accounts = [] \<rparr> \<rparr>)))
       = Document \<lparr> accounts = [] \<rparr>"
proof -
  let ?st = "emptyStore\<lparr> accountsFile := Document \<lparr> accounts = [] \<rparr> \<rparr>"
  have w: "saveWrite readOnlyDisk \<noteq> Written" by (simp add: readOnlyDisk_def)
  have l: "fst (loadAccounts readOnlyDisk ?st) = Fulfilled \<lparr> accounts = [] \<rparr>"
    by (simp add: loadAccounts_def loadAccounts_operation_def emptyStore_def)
  have kept: "accountsFile (snd (upsertAccount readOnlyDisk ''2024-06-01T00:00:00.000Z''
                  (onlyId ''abc'' Flipkart) ?st)) = Document \<lparr> accounts = [] \<rparr>"
    by (simp add: upsertAccount_def loadAccounts_def loadAccounts_operation_def saveAccounts_def
        saveAccounts_operation_def readOnlyDisk_def emptyStore_def onlyId_def trim_def
        toLowerCase_def toLowerChar_def isWhiteSpace_def spreadDefaults_def orElse_def Let_def)
  note inst = saveAccounts_always_resolves [of readOnlyDisk "\<lparr> accounts = [] \<rparr>" ?st
      "\<lparr> accounts = [] \<rparr>" "''2024-06-01T00:00:00.000Z''" "onlyId ''abc'' Flipkart"
      "''abc''" Healthy None]
  from inst have s: "fst (saveAccounts readOnlyDisk \<lparr> accounts = [] \<rparr> ?st) = Fulfilled ()"
    by (rule conjunct1)
  from inst l have u: "\<exists>r. fst (upsertAccount readOnlyDisk ''2024-06-01T00:00:00.000Z''
                  (onlyId ''abc'' Flipkart) ?st) = Fulfilled r" by blast
  from inst l have t: "fst (updateAccountStatus readOnlyDisk ''2024-06-01T00:00:00.000Z'' ''abc''
                  Healthy None ?st) = Fulfilled ()" by blast
  from w l s u t kept show ?thesis by blast
qed

text \<open>
  The claim as the spec words it, that every mutating operation reports success, fails
  where the load itself has to write: on first use (no accounts file yet) and for a file
  in the legacy format, \<open>loadAccounts\<close> writes the document with \<^verbatim>\<open>fs.writeJSON\<close> outside
  the queue's \<^verbatim>\<open>catch\<close>. When that write is refused, \<open>upsertAccount\<close>,
  \<open>updateAccountStatus\<close> and \<open>deleteAccount\<close> are rejected, although \<open>saveAccounts\<close> on the
  same disk is fulfilled.
\<close>

theorem mutating_operations_reject_when_load_fails:
  "fst (saveAccounts readOnlyDisk \<lparr> accounts = [] \<rparr> emptyStore) = Fulfilled ()
   \<and> fst (upsertAccount readOnlyDisk ''2024-06-01T00:00:00.000Z'' (onlyId ''abc'' Flipkart) emptyStore)
       = Rejected ''writeJSON''
   \<and> fst (updateAccountStatus readOnlyDisk ''2024-06-01T00:00:00.000Z'' ''abc'' Healthy None emptyStore)
       = Rejected ''writeJSON''
   \<and> fst (deleteAccount readOnlyDisk ''abc'' emptyStore) = Rejected ''writeJSON''
   \<and> fst (upsertAccount readOnlyDisk ''2024-06-01T00:00:00.000Z''
            ((onlyId ''abc'' Flipkart)\<lparr> p_status := Some Locked \<rparr>)
            (emptyStore\<lparr> accountsFile := LegacyArray [abcAccount] \<rparr>))
       = Rejected ''writeJSON''
   \<and> accountsFile (snd (upsertAccount readOnlyDisk ''2024-06-01T00:00:00.000Z''
            ((onlyId ''abc'' Flipkart)\<lparr> p_status := Some Locked \<rparr>)
            (emptyStore\<lparr> accountsFile := LegacyArray [abcAccount] \<rparr>)))
       = LegacyArray [abcAccount]"
  by (simp add: upsertAccount_def updateAccountStatus_def deleteAccount_def loadAccounts_def
        loadAccounts_operation_def saveAccounts_def saveAccounts_operation_def readOnlyDisk_def
        emptyStore_def Let_def)

subsection \<open>What upsert returns\<close>

lemma findIndex_None: "findIndex P xs = None \<longleftrightarrow> (\<forall>x \<in> set xs. \<not> P x)"
  by (induction xs) auto

lemma findIndex_Some:
  "findIndex P xs = Some i \<Longrightarrow> i < length xs \<and> P (xs ! i) \<and> (\<forall>j < i. \<not> P (xs ! j))"
proof (induction xs arbitrary: i)
  case Nil
  then show ?case by simp
next
  case (Cons x xs)
  show ?case
  proof (cases "P x")
    case True
    with Cons.prems show ?thesis by simp
  next
    case False
    with Cons.prems obtain k where k: "findIndex P xs = Some k" "i = Suc k" by auto
    from Cons.IH [OF k(1)] False k(2) show ?thesis
      by (auto simp: nth_Cons split: nat.splits)
  qed
qed

lemma then_st_saved:
  "then_st (fst (saveAccounts faults d s)) (\<lambda>_ s2. (Fulfilled r, s2)) (snd (saveAccounts faults d s))
     = (Fulfilled r, snd (saveAccounts faults d s))"
  by (simp add: saveAccounts_fulfilled)

lemma upsertAccount_unfold:
  assumes "fst (loadAccounts faults st) = Fulfilled data"
  shows "upsertAccount faults now account st =
    (case findIndex (\<lambda>a. toLowerCase (id' a) = trim (toLowerCase (p_id account))) (accounts data) of
       Some i \<Rightarrow>
         (Fulfilled ((spreadExisting (accounts data ! i) account)\<lparr> updatedAt := now \<rparr>),
          snd (saveAccounts faults
                 (data\<lparr> accounts := (accounts data)
                    [i := (spreadExisting (accounts data ! i) account)\<lparr> updatedAt := now \<rparr>] \<rparr>)
                 (snd (loadAccounts faults st))))
     | None \<Rightarrow>
         (Fulfilled ((spreadDefaults now account)\<lparr> id' := trim (toLowerCase (p_id account)) \<rparr>),
          snd (saveAccounts faults
                 (data\<lparr> accounts := accounts data @
                    [(spreadDefaults now account)\<lparr> id' := trim (toLowerCase (p_id account)) \<rparr>] \<rparr>)
                 (snd (loadAccounts faults st)))))"
  using assms
  by (simp add: upsertAccount_def Let_def case_prod_unfold then_st_saved split: option.splits)

text \<open>
  What \<open>upsertAccount\<close> gives when the load succeeds. It looks for the first stored record
  whose lower-cased id is the lower-cased, trimmed id of the partial record. If there is
  one, the caller gets that record merged field by field with the partial record (a field
  the partial record leaves out keeps its stored value), with \<open>updatedAt\<close> set to the
  current time. If there is none, the caller gets a new record with the normalized id and
  the defaults (status \<open>New\<close>) for the fields left out; its \<open>updatedAt\<close> is the current
  time when the partial record does not itself carry one. When the disk works, the
  document on disk afterwards is the loaded list with that record put in place of the old
  one, or appended.
\<close>

lemma upsertAccount_result:
  assumes "fst (loadAccounts faults st) = Fulfilled data"
  shows "(case findIndex (\<lambda>a. toLowerCase (id' a) = trim (toLowerCase (p_id account))) (accounts data) of
      Some i \<Rightarrow>
        (\<exists>r. fst (upsertAccount faults now account st) = Fulfilled r
          \<and> r = \<lparr> id' = p_id account,
                  platform = p_platform account,
                  loginType = orElse (p_loginType account) (loginType (accounts data ! i)),
                  identifier' = orElse (p_identifier account) (identifier' (accounts data ! i)),
                  status = orElse (p_status account) (status (accounts data ! i)),
                  assignedTo = orElse (p_assignedTo account) (assignedTo (accounts data ! i)),
                  lastLoginAt = orElse (p_lastLoginAt account) (lastLoginAt (accounts data ! i)),
                  lastValidateAt =
                    orElse (p_lastValidateAt account) (lastValidateAt (accounts data ! i)),
                  errorCode = orElse (p_errorCode account) (errorCode (accounts data ! i)),
                  createdAt = orElse (p_createdAt account) (createdAt (accounts data ! i)),
                  updatedAt = now,
                  emailConfig = orElse (p_emailConfig account) (emailConfig (accounts data ! i)) \<rparr>
          \<and> (saveWrite faults = Written \<and> saveMove faults = Moved \<longrightarrow>
                accountsFile (snd (upsertAccount faults now account st))
                  = Document \<lparr> accounts = (accounts data)[i := r] \<rparr>))
    | None \<Rightarrow>
        (\<exists>r. fst (upsertAccount faults now account st) = Fulfilled r
          \<and> r\<lparr> updatedAt := now \<rparr>
                = \<lparr> id' = trim (toLowerCase (p_id account)),
                    platform = p_platform account,
                    loginType = orElse (p_loginType account) Mobile,
                    identifier' = orElse (p_identifier account) [],
                    status = orElse (p_status account) New,
                    assignedTo = orElse (p_assignedTo account) None,
                    lastLoginAt = orElse (p_lastLoginAt account) None,
                    lastValidateAt = orElse (p_lastValidateAt account) None,
                    errorCode = orElse (p_errorCode account) None,
                    createdAt = orElse (p_createdAt account) now,
                    updatedAt = now,
                    emailConfig = orElse (p_emailConfig account) None \<rparr>
          \<and> updatedAt r = orElse (p_updatedAt account) now
          \<and> (saveWrite faults = Written \<and> saveMove faults = Moved \<longrightarrow>
                accountsFile (snd (upsertAccount faults now account st))
                  = Document \<lparr> accounts = accounts data @ [r] \<rparr>)))"
proof -
  have persisted: "saveWrite faults = Written \<and> saveMove faults = Moved \<Longrightarrow>
      accountsFile (snd (saveAccounts faults d (snd (loadAccounts faults st)))) = Document d" for d
    using saveAccounts_persists [OF loadAccounts_saveQueue, of faults d faults st] by simp
  show ?thesis
    using persisted
    by (simp add: upsertAccount_unfold [OF assms] spreadExisting_def spreadDefaults_def
          split: option.splits)
qed


subsection \<open>Ids in the stored document\<close>

text \<open>
  C8 (the code breaks it). The branch that creates a record forces the normalized id
  (\<^verbatim>\<open>id: id // Force standardized ID\<close>); the branch that updates one does not, so the
  spread of the partial record writes the caller's raw id over the stored one. First
  fact: after \<open>upsert {id: 'abc'}\<close> and \<open>upsert {id: 'ABC', assignedTo: 'op1'}\<close> the one
  stored record has the id \<open>ABC\<close>. Second fact: a raw id with white space no longer matches
  its own normalized form, so the sequence \<open>'abc'\<close>, \<open>' abc'\<close>, \<open>'abc'\<close>, \<open>' abc'\<close> leaves two
  records with the same id \<open>' abc'\<close>.
\<close>

theorem upsertAccount_keeps_raw_id:
  "accountsFile (snd (upsertAccount noFaults ''2024-06-02T00:00:00.000Z''
       ((onlyId ''ABC'' Flipkart)\<lparr> p_assignedTo := Some (Some ''op1'') \<rparr>)
       (snd (upsertAccount noFaults ''2024-06-01T00:00:00.000Z'' (onlyId ''abc'' Flipkart) emptyStore))))
   = Document \<lparr> accounts =
       [\<lparr> id' = ''ABC'', platform = Flipkart, loginType = Mobile, identifier' = [], status = New,
          assignedTo = Some ''op1'', lastLoginAt = None, lastValidateAt = None, errorCode = None,
          createdAt = ''2024-06-01T00:00:00.000Z'', updatedAt = ''2024-06-02T00:00:00.000Z'',
          emailConfig = None \<rparr>] \<rparr>
   \<and> (case accountsFile
          (snd (upsertAccount noFaults ''2024-06-04T00:00:00.000Z'' (onlyId '' abc'' Flipkart)
          (snd (upsertAccount noFaults ''2024-06-03T00:00:00.000Z'' (onlyId ''abc'' Flipkart)
          (snd (upsertAccount noFaults ''2024-06-02T00:00:00.000Z'' (onlyId '' abc'' Flipkart)
          (snd (upsertAccount noFaults ''2024-06-01T00:00:00.000Z'' (onlyId ''abc'' Flipkart)
                  emptyStore)))))))) of
         Document d \<Rightarrow> map id' (accounts d)
       | _ \<Rightarrow> [])
     = ['' abc'', '' abc'']"
  by (simp add: upsertAccount_def loadAccounts_def loadAccounts_operation_def saveAccounts_def
        saveAccounts_operation_def noFaults_def emptyStore_def onlyId_def trim_def toLowerCase_def
        toLowerChar_def isWhiteSpace_def spreadDefaults_def spreadExisting_def orElse_def Let_def)

section \<open>Properties of the cookie adaptation\<close>

lemma includes'_iff: "includes' hay needle \<longleftrightarrow> (\<exists>pre post. hay = pre @ needle @ post)"
proof (induction hay)
  case Nil
  then show ?case by simp
next
  case (Cons c cs)
  show ?case
  proof
    assume "includes' (c # cs) needle"
    then consider "prefix needle (c # cs)" | "includes' cs needle" by auto
    then show "\<exists>pre post. c # cs = pre @ needle @ post"
    proof cases
      case 1
      then obtain post where "c # cs = needle @ post" by (auto simp: prefix_def)
      then have "c # cs = [] @ needle @ post" by simp
      then show ?thesis by blast
    next
      case 2
      with Cons.IH obtain pre post where "cs = pre @ needle @ post" by blast
      then have "c # cs = (c # pre) @ needle @ post" by simp
      then show ?thesis by blast
    qed
  next
    assume "\<exists>pre post. c # cs = pre @ needle @ post"
    then obtain pre post where eq: "c # cs = pre @ needle @ post" by blast
    show "includes' (c # cs) needle"
    proof (cases pre)
      case Nil
      with eq have "prefix needle (c # cs)" by (simp add: prefix_def)
      then show ?thesis by simp
    next
      case (Cons p pre')
      with eq have "cs = pre' @ needle @ post" by simp
      with Cons.IH have "includes' cs needle" by blast
      then show ?thesis by simp
    qed
  qed
qed

lemma suffix_includes': "suffix needle hay \<Longrightarrow> includes' hay needle"
  unfolding includes'_iff suffix_def by (metis append_Nil2)

text \<open>
  C5, as the code has it. The result has one cookie for each cookie of the input, in the
  same order; each has lost \<open>hostOnly\<close> and \<open>session\<close> and kept every other property; its
  domain is \<^verbatim>\<open>.shopsy.in\<close> exactly when the domain of the input cookie contains
  \<^verbatim>\<open>flipkart.com\<close> somewhere, and the domain of the input cookie otherwise. A domain
  that ends with \<^verbatim>\<open>flipkart.com\<close> is among those rewritten.
\<close>

theorem adaptCookiesForShopsy_rewrites:
  "adaptCookiesForShopsy cookies =
     map (\<lambda>c. c\<lparr> hostOnly := None, session := None,
                  domain := (if \<exists>pre post. domain c = pre @ ''flipkart.com'' @ post
                             then ''.shopsy.in'' else domain c) \<rparr>) cookies
   \<and> (\<forall>i < length cookies. suffix ''flipkart.com'' (domain (cookies ! i)) \<longrightarrow>
          domain (adaptCookiesForShopsy cookies ! i) = ''.shopsy.in'')"
proof
  show "adaptCookiesForShopsy cookies =
     map (\<lambda>c. c\<lparr> hostOnly := None, session := None,
                  domain := (if \<exists>pre post. domain c = pre @ ''flipkart.com'' @ post
                             then ''.shopsy.in'' else domain c) \<rparr>) cookies"
    by (simp add: adaptCookiesForShopsy_def Let_def includes'_iff)
  show "\<forall>i < length cookies. suffix ''flipkart.com'' (domain (cookies ! i)) \<longrightarrow>
          domain (adaptCookiesForShopsy cookies ! i) = ''.shopsy.in''"
    by (simp add: adaptCookiesForShopsy_def Let_def suffix_includes')
qed

theorem adaptCookiesForShopsy_rewrites_witness:
  "0 < length [\<lparr> domain = ''www.flipkart.com'', hostOnly = Some True, session = Some False,
                  attributes = [(''name'', ''SN''), (''path'', ''/'')] \<rparr>]
   \<and> suffix ''flipkart.com'' ''www.flipkart.com''
   \<and> adaptCookiesForShopsy
        [\<lparr> domain = ''www.flipkart.com'', hostOnly = Some True, session = Some False,
            attributes = [(''name'', ''SN''), (''path'', ''/'')] \<rparr>]
       = [\<lparr> domain = ''.shopsy.in'', hostOnly = None, session = None,
             attributes = [(''name'', ''SN''), (''path'', ''/'')] \<rparr>]"
proof -
  let ?c = "\<lparr> domain = ''www.flipkart.com'', hostOnly = Some True, session = Some False,
              attributes = [(''name'', ''SN''), (''path'', ''/'')] \<rparr>"
  have s: "suffix ''flipkart.com'' ''www.flipkart.com''"
    by (simp add: suffix_to_prefix)
  have "adaptCookiesForShopsy [?c] =
     map (\<lambda>c. c\<lparr> hostOnly := None, session := None,
                  domain := (if includes' (domain c) ''flipkart.com''
                             then ''.shopsy.in'' else domain c) \<rparr>) [?c]"
    using adaptCookiesForShopsy_rewrites [of "[?c]"]
    unfolding includes'_iff [symmetric] by (rule conjunct1)
  with s show ?thesis by simp
qed

text \<open>
  The claim as the spec words it fails twice. A cookie of an unrelated domain is not
  returned unchanged: it loses \<open>hostOnly\<close> and \<open>session\<close> too. And the test is
  \<^verbatim>\<open>includes\<close>, not a suffix match: the domain \<^verbatim>\<open>flipkart.com.example.org\<close> does not
  end with \<^verbatim>\<open>flipkart.com\<close> and is rewritten all the same.
\<close>

theorem adaptCookiesForShopsy_other_domains:
  "adaptCookiesForShopsy
     [\<lparr> domain = ''www.example.org'', hostOnly = Some True, session = Some True,
         attributes = [(''name'', ''sid'')] \<rparr>,
      \<lparr> domain = ''flipkart.com.example.org'', hostOnly = None, session = None,
         attributes = [(''name'', ''T'')] \<rparr>]
   = [\<lparr> domain = ''www.example.org'', hostOnly = None, session = None,
         attributes = [(''name'', ''sid'')] \<rparr>,
      \<lparr> domain = ''.shopsy.in'', hostOnly = None, session = None,
         attributes = [(''name'', ''T'')] \<rparr>]
   \<and> \<not> suffix ''flipkart.com'' ''www.example.org''
   \<and> \<not> suffix ''flipkart.com'' ''flipkart.com.example.org''"
  by (simp add: adaptCookiesForShopsy_def suffix_to_prefix)

section \<open>The registry key of a login session and the health check\<close>

text \<open>
  C4 (the code breaks it). The prober asks the registry for keys that start with
  \<^verbatim>\<open>flipkart-<id>\<close> or \<^verbatim>\<open>shopsy-<id>\<close>; the login flows register their context
  under \<^verbatim>\<open><id>-flipkart-login\<close> and \<^verbatim>\<open><id>-shopsy-login\<close>, which start with the id.
  Here the operator has opened the account \<open>acc1\<close> (\<open>loginFlipkart\<close> with \<open>keepOpen\<close>, the
  session still valid), so its context is live and registered. The health check of the
  same account does not see it: it launches a second browser on the same profile
  directory and reports what the page shows, here \<open>ActionNeeded\<close>.
\<close>

theorem checkAccountHealth_misses_login_session:
  "contexts (snd (loginFlipkart noFaults ''2024-06-01T00:00:00.000Z'' False (Inr 1) AlreadyLoggedIn
                    ''acc1'' True (quietWorld Flipkart)))
     = [(''acc1-flipkart-login'', 1)]
   \<and> fst (checkAccountHealth (\<lambda>profilePath url. Content ''<a>Login</a>'') 2 Flipkart ''acc1''
          (snd (loginFlipkart noFaults ''2024-06-01T00:00:00.000Z'' False (Inr 1) AlreadyLoggedIn
                    ''acc1'' True (quietWorld Flipkart))))
     = \<lparr> r_status = ''ActionNeeded'', r_message = ''Session may be expired'' \<rparr>
   \<and> launches (snd (checkAccountHealth (\<lambda>profilePath url. Content ''<a>Login</a>'') 2 Flipkart ''acc1''
          (snd (loginFlipkart noFaults ''2024-06-01T00:00:00.000Z'' False (Inr 1) AlreadyLoggedIn
                    ''acc1'' True (quietWorld Flipkart)))))
     = [''data/profiles/flipkart/acc1/userDataDir'', ''data/profiles/flipkart/acc1/userDataDir'']"
  by (simp add: loginFlipkart_def loginKey_def checkAccountHealth_def looksHealthy_def
        isActive_def startsWith_def contextClosed_def PROFILES_DIR_def DATA_DIR_def quietWorld_def
        noFaults_def Let_def)

section \<open>A browser closed by the operator during a login\<close>

text \<open>
  C9 (the code breaks it for Shopsy). The operator closes the browser while the flow
  waits, and the pending wait throws Playwright's error, whose message holds the word
  \<^verbatim>\<open>closed\<close>. \<open>loginFlipkart\<close> returns \<open>cancelled\<close> and leaves the stored account as it
  was. \<open>loginShopsy\<close> has no such branch: it stores the status \<open>Error\<close> with the text of
  the error and throws the error to its caller.
\<close>

theorem loginShopsy_closed_browser_is_error:
  "fst (loginShopsy noFaults ''2024-06-01T00:00:00.000Z'' (Inr 1) (Some closedError) ''acc1''
          (quietWorld Shopsy))
     = Inl closedError
   \<and> accountsFile (store (snd (loginShopsy noFaults ''2024-06-01T00:00:00.000Z'' (Inr 1)
          (Some closedError) ''acc1'' (quietWorld Shopsy))))
     = Document \<lparr> accounts =
         [(acc1 Shopsy)\<lparr> status := Error, updatedAt := ''2024-06-01T00:00:00.000Z'',
            errorCode := Some ''Error: page.waitForSelector: Target page, context or browser has been closed'' \<rparr>] \<rparr>
   \<and> fst (loginFlipkart noFaults ''2024-06-01T00:00:00.000Z'' False (Inr 1) (Threw closedError)
          ''acc1'' False (quietWorld Flipkart))
     = Inr \<lparr> r_status = ''cancelled'', r_message = ''Browser closed by user'' \<rparr>
   \<and> accountsFile (store (snd (loginFlipkart noFaults ''2024-06-01T00:00:00.000Z'' False (Inr 1)
          (Threw closedError) ''acc1'' False (quietWorld Flipkart))))
     = Document \<lparr> accounts = [acc1 Flipkart] \<rparr>"
  by (simp add: loginShopsy_def loginFlipkart_def loginFlipkart_catch_def failLogin_def
        closeLogin_def loginKey_def contextClosed_def String_err_def closedError_def quietWorld_def
        acc1_def PROFILES_DIR_def DATA_DIR_def updateAccountStatus_def setStatus_def
        loadAccounts_def loadAccounts_operation_def saveAccounts_def saveAccounts_operation_def
        noFaults_def emptyStore_def trim_def toLowerCase_def toLowerChar_def isWhiteSpace_def
        Let_def)

section \<open>Properties of the cryptographic vault\<close>

lemma nodeCrypto_toyCrypto: "nodeCrypto toyCrypto"
  by (auto simp: nodeCrypto_def toyCrypto_def comp_def min_def)

lemma hexValue_hexDigits: "n < 16 \<Longrightarrow> hexValue (hexDigits ! n) = Some n"
proof -
  assume "n < 16"
  then have "n \<in> set [0..<16]" by simp
  moreover have "list_all (\<lambda>n. hexValue (hexDigits ! n) = Some n) [0..<16]"
    by (simp add: upt_rec hexValue_def hexDigits_def)
  ultimately show ?thesis by (simp add: list_all_iff del: set_upt)
qed

lemma fromHex_toHex: "fromHex (toHex buf) = buf"
proof (induction buf)
  case Nil
  then show ?case by (simp add: toHex_def)
next
  case (Cons b buf)
  have "unat b < 2 ^ LENGTH(8)" by (rule unsigned_less)
  then have hi: "unat b div 16 < 16" by simp
  have lo: "unat b mod 16 < 16" by simp
  have "(of_nat (16 * (unat b div 16) + unat b mod 16) :: 8 word) = b"
    by simp
  with Cons hi lo show ?case
    by (simp add: toHex_def hexValue_hexDigits)
qed

lemma deriveKey_length:
  "nodeCrypto lib \<Longrightarrow> length (deriveKeyFromPassphrase lib passphrase saltBuf) = 32"
  by (simp add: nodeCrypto_def deriveKeyFromPassphrase_def KEY_LENGTH_def)

lemma nodeCrypto_roundtrip:
  assumes "nodeCrypto lib" "length key = 32" "ivBuf \<noteq> []"
  obtains ct tag where "gcmEncrypt lib key ivBuf data = Inr (ct, tag)" "length tag = 16"
    "gcmDecrypt lib key ivBuf tag ct = Inr data"
  using assms unfolding nodeCrypto_def by blast

text \<open>
  The two wrappers hand the library exactly what encryption produced: the hex strings of
  the record decode to the bytes they were made from.
\<close>

lemma encryptWithPassphrase_eq:
  "gcmEncrypt lib (deriveKeyFromPassphrase lib passphrase saltBuf) ivBuf data = Inr (ct, tag) \<Longrightarrow>
     encryptWithPassphrase lib saltBuf ivBuf data passphrase =
       Inr \<lparr> iv = toHex ivBuf, authTag = toHex tag, ciphertext = toHex ct, salt = toHex saltBuf \<rparr>"
  by (simp add: encryptWithPassphrase_def encrypt_def)

lemma decryptWithPassphrase_eq:
  "decryptWithPassphrase lib
     \<lparr> iv = toHex ivBuf, authTag = toHex tag, ciphertext = toHex ct, salt = toHex saltBuf \<rparr> passphrase
   = gcmDecrypt lib (deriveKeyFromPassphrase lib passphrase saltBuf) ivBuf tag ct"
  by (simp add: decryptWithPassphrase_def decrypt_def fromHex_toHex)

lemma passphrase_roundtrip:
  assumes "nodeCrypto lib" and "ivBuf \<noteq> []"
  shows "\<exists>encrypted.
           encryptWithPassphrase lib saltBuf ivBuf data passphrase = Inr encrypted
         \<and> decryptWithPassphrase lib encrypted passphrase = Inr data"
proof -
  from assms(1) deriveKey_length [OF assms(1)] assms(2)
  obtain ct tag
    where enc: "gcmEncrypt lib (deriveKeyFromPassphrase lib passphrase saltBuf) ivBuf data = Inr (ct, tag)"
      and dec: "gcmDecrypt lib (deriveKeyFromPassphrase lib passphrase saltBuf) ivBuf tag ct = Inr data"
    by (rule nodeCrypto_roundtrip)
  from encryptWithPassphrase_eq [OF enc] dec show ?thesis
    by (simp add: decryptWithPassphrase_eq)
qed

text \<open>
  C1. With the library as documented, for every plaintext and passphrase, and whatever
  salt (32 bytes) and initialization vector (16 bytes) the random generator gave,
  \<open>encryptWithPassphrase\<close> succeeds and \<open>decryptWithPassphrase\<close> with the same passphrase
  returns exactly the plaintext.
\<close>

theorem decrypt_encrypt_roundtrip:
  assumes "nodeCrypto lib" and "length saltBuf = SALT_LENGTH" and "length ivBuf = IV_LENGTH"
  shows "\<exists>encrypted.
           encryptWithPassphrase lib saltBuf ivBuf data passphrase = Inr encrypted
         \<and> decryptWithPassphrase lib encrypted passphrase = Inr data"
proof -
  from assms(3) have "ivBuf \<noteq> []" by (auto simp: IV_LENGTH_def)
  with assms(1) show ?thesis by (rule passphrase_roundtrip)
qed

theorem decrypt_encrypt_roundtrip_witness:
  "nodeCrypto toyCrypto
   \<and> length salt32 = SALT_LENGTH
   \<and> length iv16 = IV_LENGTH
   \<and> (\<exists>encrypted.
         encryptWithPassphrase toyCrypto salt32 iv16 [1, 2, 3] ''p1'' = Inr encrypted
       \<and> decryptWithPassphrase toyCrypto encrypted ''p1'' = Inr [1, 2, 3])"
proof -
  have s: "length salt32 = SALT_LENGTH" by (simp add: SALT_LENGTH_def salt32_def)
  have i: "length iv16 = IV_LENGTH" by (simp add: IV_LENGTH_def iv16_def)
  from decrypt_encrypt_roundtrip [OF nodeCrypto_toyCrypto s i, of "[1, 2, 3]" "''p1''"]
    nodeCrypto_toyCrypto s i
  show ?thesis by blast
qed

section \<open>Properties of the profile vault\<close>

lemma parseBackup_concat:
  assumes "length saltBuf = 16" "length ivBuf = 12" "length tag = 16"
  shows "parseBackup (saltBuf @ ivBuf @ tag @ encrypted) = (saltBuf, ivBuf, tag, encrypted)"
  using assms
  by (simp add: parseBackup_def subarray_def vault_SALT_LENGTH_def vault_IV_LENGTH_def
        vault_AUTH_TAG_LENGTH_def)

lemma parseBackup_offsets:
  "parseBackup fileData =
     (subarray fileData 0 16, subarray fileData 16 28, subarray fileData 28 44, drop 44 fileData)"
  by (simp add: parseBackup_def vault_SALT_LENGTH_def vault_IV_LENGTH_def
        vault_AUTH_TAG_LENGTH_def)

lemma saveProfileToDisk_eq:
  assumes "pass \<noteq> []"
    and "dirAt fs (path_join [PROFILES_DIR, site, trim (toLowerCase accountId), ''userDataDir''])
           = Some archive"
    and "gcmEncrypt lib (pbkdf2Sync lib pass saltBuf 100000 32 ''sha256'') ivBuf archive
           = Inr (encrypted, tag)"
  shows "fst (saveProfileToDisk lib (Some pass) saltBuf ivBuf site accountId fs)
           = Inr (path_join [ENCRYPTED_DIR, site, trim (toLowerCase accountId) @ ''.zip.enc''])"
    and "fileAt (snd (saveProfileToDisk lib (Some pass) saltBuf ivBuf site accountId fs))
           (path_join [ENCRYPTED_DIR, site, trim (toLowerCase accountId) @ ''.zip.enc''])
           = Some (saltBuf @ ivBuf @ tag @ encrypted)"
  using assms
  by (simp_all add: saveProfileToDisk_def getKey_def vault_KEY_LENGTH_def Let_def)

lemma restoreProfileFromDisk_eq:
  assumes "fileAt fs (path_join [ENCRYPTED_DIR, site, trim (toLowerCase accountId) @ ''.zip.enc''])
             = Some fileData"
    and "getKey lib globalPassphrase (subarray fileData 0 16) = Inr key"
  shows "restoreProfileFromDisk lib globalPassphrase site accountId fs =
    (case gcmDecrypt lib key (subarray fileData 16 28) (subarray fileData 28 44) (drop 44 fileData) of
       Inl err \<Rightarrow> (Inl err, fs)
     | Inr decrypted \<Rightarrow>
         (Inr (path_join [path_join [PROFILES_DIR, site, trim (toLowerCase accountId)], ''userDataDir'']),
          fs\<lparr> dirAt := (dirAt fs)
                 (path_join [path_join [PROFILES_DIR, site, trim (toLowerCase accountId)], ''userDataDir'']
                    \<mapsto> decrypted),
               fileAt := (fileAt fs)
                 (path_join [ENCRYPTED_DIR, site, accountId @ ''_temp.zip''] := None) \<rparr>))"
  using assms
  by (simp add: restoreProfileFromDisk_def parseBackup_offsets Let_def split: sum.splits)


lemma restoreProfileFromDisk_unfold:
  assumes "fileAt fs (path_join [ENCRYPTED_DIR, site, trim (toLowerCase accountId) @ ''.zip.enc''])
             = Some fileData"
  shows "restoreProfileFromDisk lib globalPassphrase site accountId fs =
    (case getKey lib globalPassphrase (subarray fileData 0 16) of
       Inl err \<Rightarrow> (Inl err, fs)
     | Inr key \<Rightarrow>
         (case gcmDecrypt lib key (subarray fileData 16 28) (subarray fileData 28 44)
                 (drop 44 fileData) of
            Inl err \<Rightarrow> (Inl err, fs)
          | Inr decrypted \<Rightarrow>
              (Inr (path_join [PROFILES_DIR, site, trim (toLowerCase accountId), ''userDataDir'']),
               fs\<lparr> dirAt := (dirAt fs)
                      (path_join [PROFILES_DIR, site, trim (toLowerCase accountId), ''userDataDir'']
                         \<mapsto> decrypted),
                    fileAt := (fileAt fs)
                      (path_join [ENCRYPTED_DIR, site, accountId @ ''_temp.zip''] := None) \<rparr>)))"
  using assms
  by (simp add: restoreProfileFromDisk_def parseBackup_offsets Let_def split: sum.splits)

text \<open>
  C3. With the library as documented, a passphrase set, and the profile directory
  present, \<open>saveProfileToDisk\<close> succeeds and the backup file it leaves is the salt, the
  initialization vector, the tag and the ciphertext in this order: the salt at offsets
  \<open>[0,16)\<close>, the vector at \<open>[16,28)\<close>, the tag at \<open>[28,44)\<close> and the ciphertext from offset
  44 to the end, where ciphertext and tag are what AES-256-GCM gave for the archive under
  the key derived from the passphrase and that salt.

  \<open>restoreProfileFromDisk\<close> cuts at exactly these offsets: whatever file system it runs
  on, whatever bytes the backup file holds there and whatever the passphrase is, it
  derives the key from the bytes \<open>[0,16)\<close>, hands the bytes \<open>[16,28)\<close> to the library as the
  vector, the bytes \<open>[28,44)\<close> as the tag and the bytes from 44 on as the ciphertext, and
  what the library returns for them is what it unpacks into the profile directory (or the
  error it throws). So on the file system \<open>saveProfileToDisk\<close> left, with the profile
  directory lost or changed in any way since, it puts the archive back.
\<close>

theorem saveProfileToDisk_layout:
  assumes "nodeCrypto lib"
    and "length saltBuf = vault_SALT_LENGTH" and "length ivBuf = vault_IV_LENGTH"
    and "pass \<noteq> []"
    and "dirAt fs (path_join [PROFILES_DIR, site, trim (toLowerCase accountId), ''userDataDir''])
           = Some archive"
  shows "\<exists>encPath fileData encrypted tag.
      fst (saveProfileToDisk lib (Some pass) saltBuf ivBuf site accountId fs) = Inr encPath
    \<and> fileAt (snd (saveProfileToDisk lib (Some pass) saltBuf ivBuf site accountId fs)) encPath
          = Some fileData
    \<and> gcmEncrypt lib (pbkdf2Sync lib pass saltBuf 100000 32 ''sha256'') ivBuf archive
          = Inr (encrypted, tag)
    \<and> fileData = saltBuf @ ivBuf @ tag @ encrypted
    \<and> subarray fileData 0 16 = saltBuf
    \<and> subarray fileData 16 28 = ivBuf
    \<and> subarray fileData 28 44 = tag
    \<and> drop 44 fileData = encrypted
    \<and> parseBackup fileData = (saltBuf, ivBuf, tag, encrypted)
    \<and> parseBackup fileData =
          (subarray fileData 0 16, subarray fileData 16 28, subarray fileData 28 44, drop 44 fileData)
    \<and> (\<forall>other stored globalPassphrase.
          fileAt other encPath = Some stored \<longrightarrow>
          restoreProfileFromDisk lib globalPassphrase site accountId other =
            (case getKey lib globalPassphrase (subarray stored 0 16) of
               Inl err \<Rightarrow> (Inl err, other)
             | Inr key \<Rightarrow>
                 (case gcmDecrypt lib key (subarray stored 16 28) (subarray stored 28 44)
                         (drop 44 stored) of
                    Inl err \<Rightarrow> (Inl err, other)
                  | Inr decrypted \<Rightarrow>
                      (Inr (path_join [PROFILES_DIR, site, trim (toLowerCase accountId), ''userDataDir'']),
                       other\<lparr> dirAt := (dirAt other)
                                (path_join [PROFILES_DIR, site, trim (toLowerCase accountId),
                                            ''userDataDir''] \<mapsto> decrypted),
                              fileAt := (fileAt other)
                                (path_join [ENCRYPTED_DIR, site, accountId @ ''_temp.zip''] := None) \<rparr>))))
    \<and> (\<forall>dirs.
          fst (restoreProfileFromDisk lib (Some pass) site accountId
                 ((snd (saveProfileToDisk lib (Some pass) saltBuf ivBuf site accountId fs))
                    \<lparr> dirAt := dirs \<rparr>))
            = Inr (path_join [PROFILES_DIR, site, trim (toLowerCase accountId), ''userDataDir''])
          \<and> dirAt (snd (restoreProfileFromDisk lib (Some pass) site accountId
                 ((snd (saveProfileToDisk lib (Some pass) saltBuf ivBuf site accountId fs))
                    \<lparr> dirAt := dirs \<rparr>)))
            = dirs(path_join [PROFILES_DIR, site, trim (toLowerCase accountId), ''userDataDir'']
                     \<mapsto> archive))"
proof -
  let ?key = "pbkdf2Sync lib pass saltBuf 100000 32 ''sha256''"
  let ?saved = "saveProfileToDisk lib (Some pass) saltBuf ivBuf site accountId fs"
  let ?encPath = "path_join [ENCRYPTED_DIR, site, trim (toLowerCase accountId) @ ''.zip.enc'']"
  let ?profilePath = "path_join [PROFILES_DIR, site, trim (toLowerCase accountId), ''userDataDir'']"
  from assms(1) have k: "length ?key = 32" by (simp add: nodeCrypto_def)
  from assms(3) have "ivBuf \<noteq> []" by (auto simp: vault_IV_LENGTH_def)
  with assms(1) k obtain encrypted tag
    where enc: "gcmEncrypt lib ?key ivBuf archive = Inr (encrypted, tag)" and t: "length tag = 16"
      and dec: "gcmDecrypt lib ?key ivBuf tag encrypted = Inr archive"
    by (rule nodeCrypto_roundtrip)
  let ?fileData = "saltBuf @ ivBuf @ tag @ encrypted"
  from assms(2) assms(3) have l: "length saltBuf = 16" "length ivBuf = 12"
    by (simp_all add: vault_SALT_LENGTH_def vault_IV_LENGTH_def)
  note saved = saveProfileToDisk_eq [OF assms(4) assms(5) enc]
  have parts: "subarray ?fileData 0 16 = saltBuf" "subarray ?fileData 16 28 = ivBuf"
    "subarray ?fileData 28 44 = tag" "drop 44 ?fileData = encrypted"
    using l t by (simp_all add: subarray_def)
  have key: "getKey lib (Some pass) (subarray ?fileData 0 16) = Inr ?key"
    using assms(4) parts(1) by (simp add: getKey_def vault_KEY_LENGTH_def)
  have slices: "\<forall>other stored globalPassphrase.
          fileAt other ?encPath = Some stored \<longrightarrow>
          restoreProfileFromDisk lib globalPassphrase site accountId other =
            (case getKey lib globalPassphrase (subarray stored 0 16) of
               Inl err \<Rightarrow> (Inl err, other)
             | Inr key \<Rightarrow>
                 (case gcmDecrypt lib key (subarray stored 16 28) (subarray stored 28 44)
                         (drop 44 stored) of
                    Inl err \<Rightarrow> (Inl err, other)
                  | Inr decrypted \<Rightarrow>
                      (Inr ?profilePath,
                       other\<lparr> dirAt := (dirAt other)(?profilePath \<mapsto> decrypted),
                              fileAt := (fileAt other)
                                (path_join [ENCRYPTED_DIR, site, accountId @ ''_temp.zip''] := None) \<rparr>)))"
    by (intro allI impI) (rule restoreProfileFromDisk_unfold)
  have restored: "fst (restoreProfileFromDisk lib (Some pass) site accountId
                         ((snd ?saved)\<lparr> dirAt := dirs \<rparr>)) = Inr ?profilePath
      \<and> dirAt (snd (restoreProfileFromDisk lib (Some pass) site accountId
                         ((snd ?saved)\<lparr> dirAt := dirs \<rparr>))) = dirs(?profilePath \<mapsto> archive)" for dirs
  proof -
    have "fileAt ((snd ?saved)\<lparr> dirAt := dirs \<rparr>) ?encPath = Some ?fileData"
      using saved(2) by simp
    from restoreProfileFromDisk_unfold [OF this, of lib "Some pass"] key parts dec
    show ?thesis by simp
  qed
  from saved enc parts parseBackup_concat [OF l t, of encrypted] parseBackup_offsets [of ?fileData]
    slices restored
  show ?thesis by blast
qed

text \<open>
  The profile directory of \<open>acc1\<close> holds the archive \<open>80 75 3 4\<close>. The backup is written,
  the directory is lost, and the restore puts the archive back.
\<close>

theorem saveProfileToDisk_layout_witness:
  "nodeCrypto toyCrypto
   \<and> length salt16 = vault_SALT_LENGTH \<and> length iv12 = vault_IV_LENGTH
   \<and> ''p1'' \<noteq> []
   \<and> dirAt profileDisk (path_join [PROFILES_DIR, ''flipkart'', trim (toLowerCase '' Acc1''), ''userDataDir''])
        = Some [80, 75, 3, 4]
   \<and> fst (saveProfileToDisk toyCrypto (Some ''p1'') salt16 iv12 ''flipkart'' '' Acc1'' profileDisk)
        = Inr ''data/encrypted/flipkart/acc1.zip.enc''
   \<and> (\<exists>fileData.
         fileAt (snd (saveProfileToDisk toyCrypto (Some ''p1'') salt16 iv12 ''flipkart'' '' Acc1'' profileDisk))
           ''data/encrypted/flipkart/acc1.zip.enc'' = Some fileData
       \<and> subarray fileData 0 16 = salt16
       \<and> subarray fileData 16 28 = iv12
       \<and> drop 44 fileData = [81, 76, 4, 5])
   \<and> dirAt (snd (restoreProfileFromDisk toyCrypto (Some ''p1'') ''flipkart'' '' Acc1''
         ((snd (saveProfileToDisk toyCrypto (Some ''p1'') salt16 iv12 ''flipkart'' '' Acc1'' profileDisk))
            \<lparr> dirAt := Map.empty \<rparr>)))
       ''data/profiles/flipkart/acc1/userDataDir''
     = Some [80, 75, 3, 4]"
proof -
  have s: "length salt16 = vault_SALT_LENGTH" and i: "length iv12 = vault_IV_LENGTH"
    by (simp_all add: salt16_def iv12_def vault_SALT_LENGTH_def vault_IV_LENGTH_def)
  have p: "''p1'' \<noteq> []" by simp
  have d: "dirAt profileDisk
             (path_join [PROFILES_DIR, ''flipkart'', trim (toLowerCase '' Acc1''), ''userDataDir''])
           = Some [80, 75, 3, 4]"
    by (simp add: profileDisk_def PROFILES_DIR_def DATA_DIR_def trim_def toLowerCase_def toLowerChar_def
        isWhiteSpace_def)
  have path: "fst (saveProfileToDisk toyCrypto (Some ''p1'') salt16 iv12 ''flipkart'' '' Acc1'' profileDisk)
        = Inr ''data/encrypted/flipkart/acc1.zip.enc''"
    by (simp add: saveProfileToDisk_def getKey_def toyCrypto_def salt16_def iv12_def profileDisk_def
        PROFILES_DIR_def ENCRYPTED_DIR_def DATA_DIR_def vault_KEY_LENGTH_def trim_def
        toLowerCase_def toLowerChar_def isWhiteSpace_def Let_def)
  have profilePath: "path_join [PROFILES_DIR, ''flipkart'', trim (toLowerCase '' Acc1''), ''userDataDir'']
        = ''data/profiles/flipkart/acc1/userDataDir''"
    by (simp add: PROFILES_DIR_def DATA_DIR_def trim_def toLowerCase_def toLowerChar_def
        isWhiteSpace_def)
  have enc: "gcmEncrypt toyCrypto (pbkdf2Sync toyCrypto ''p1'' salt16 100000 32 ''sha256'') iv12 [80, 75, 3, 4]
        = Inr (ct, tag) \<Longrightarrow> ct = [81, 76, 4, 5]" for ct tag
    by (auto simp: toyCrypto_def)
  note inst = saveProfileToDisk_layout [OF nodeCrypto_toyCrypto s i p d]
  from inst path enc
  have layout: "\<exists>fileData.
         fileAt (snd (saveProfileToDisk toyCrypto (Some ''p1'') salt16 iv12 ''flipkart'' '' Acc1'' profileDisk))
           ''data/encrypted/flipkart/acc1.zip.enc'' = Some fileData
       \<and> subarray fileData 0 16 = salt16
       \<and> subarray fileData 16 28 = iv12
       \<and> drop 44 fileData = [81, 76, 4, 5]"
    by (metis sum.inject(2))
  from inst
  have "dirAt (snd (restoreProfileFromDisk toyCrypto (Some ''p1'') ''flipkart'' '' Acc1''
         ((snd (saveProfileToDisk toyCrypto (Some ''p1'') salt16 iv12 ''flipkart'' '' Acc1'' profileDisk))
            \<lparr> dirAt := Map.empty \<rparr>)))
     = Map.empty(path_join [PROFILES_DIR, ''flipkart'', trim (toLowerCase '' Acc1''), ''userDataDir'']
          \<mapsto> [80, 75, 3, 4])"
    by blast
  then have restored: "dirAt (snd (restoreProfileFromDisk toyCrypto (Some ''p1'') ''flipkart'' '' Acc1''
         ((snd (saveProfileToDisk toyCrypto (Some ''p1'') salt16 iv12 ''flipkart'' '' Acc1'' profileDisk))
            \<lparr> dirAt := Map.empty \<rparr>)))
       ''data/profiles/flipkart/acc1/userDataDir''
     = Some [80, 75, 3, 4]"
    unfolding profilePath by simp
  from nodeCrypto_toyCrypto s i p d path layout restored show ?thesis by blast
qed
section \<open>A wrong passphrase or an altered input\<close>

lemma key_collision:
  fixes f :: "string \<Rightarrow> Buffer"
  assumes "\<And>P. length (f P) = n"
  shows "\<exists>P P'. P' \<noteq> P \<and> f P = f P'"
proof (rule ccontr)
  assume "\<not> (\<exists>P P'. P' \<noteq> P \<and> f P = f P')"
  then have "inj f" unfolding inj_on_def by metis
  moreover have "range f \<subseteq> {xs. set xs \<subseteq> UNIV \<and> length xs = n}" using assms by auto
  then have "finite (range f)"
    using finite_lists_length_eq [of "UNIV :: 8 word set" n] by (auto intro: finite_subset)
  ultimately have "finite (UNIV :: string set)" by (rule finite_imageD [rotated])
  then show False by (simp add: infinite_UNIV_listI)
qed

lemma encryptWithPassphrase_salt:
  "encryptWithPassphrase lib saltBuf ivBuf data passphrase = Inr encrypted \<Longrightarrow>
     fromHex (salt encrypted) = saltBuf"
  by (auto simp: encryptWithPassphrase_def encrypt_def fromHex_toHex split: sum.splits)

lemma wrong_passphrase_collision:
  assumes lib: "nodeCrypto lib"
  shows "\<exists>passphrase wrong encrypted.
           wrong \<noteq> passphrase
         \<and> encryptWithPassphrase lib salt32 iv16 [] passphrase = Inr encrypted
         \<and> decryptWithPassphrase lib encrypted wrong = Inr []"
proof -
  have nonempty: "iv16 \<noteq> []" by (simp add: iv16_def)
  from key_collision [of "\<lambda>P. deriveKeyFromPassphrase lib P salt32" 32] deriveKey_length [OF lib]
  obtain P P' where ne: "P' \<noteq> P"
    and same: "deriveKeyFromPassphrase lib P salt32 = deriveKeyFromPassphrase lib P' salt32"
    by metis
  from passphrase_roundtrip [OF lib nonempty, of salt32 "[]" P]
  obtain encrypted where enc: "encryptWithPassphrase lib salt32 iv16 [] P = Inr encrypted"
    and dec: "decryptWithPassphrase lib encrypted P = Inr []"
    by blast
  from same encryptWithPassphrase_salt [OF enc]
  have "decryptWithPassphrase lib encrypted P' = decryptWithPassphrase lib encrypted P"
    by (simp add: decryptWithPassphrase_def)
  with ne enc dec show ?thesis by auto
qed

lemma altered_input_accepted:
  assumes lib: "nodeCrypto lib"
  shows "\<exists>ct tag ct' tag'.
           gcmEncrypt lib (replicate 32 0) iv16 [] = Inr (ct, tag)
         \<and> (ct', tag') \<noteq> (ct, tag)
         \<and> decrypt lib \<lparr> iv = toHex iv16, authTag = toHex tag', ciphertext = toHex ct', salt = [] \<rparr>
               (replicate 32 0) = Inr [0]"
proof -
  have k: "length (replicate 32 (0 :: 8 word)) = 32" by simp
  have nonempty: "iv16 \<noteq> []" by (simp add: iv16_def)
  from lib k nonempty obtain ct tag
    where e: "gcmEncrypt lib (replicate 32 0) iv16 [] = Inr (ct, tag)"
      and d: "gcmDecrypt lib (replicate 32 0) iv16 tag ct = Inr []"
    by (rule nodeCrypto_roundtrip)
  from lib k nonempty obtain ct' tag'
    where d': "gcmDecrypt lib (replicate 32 0) iv16 tag' ct' = Inr [0]"
    by (rule nodeCrypto_roundtrip)
  from d d' have "(ct', tag') \<noteq> (ct, tag)" by auto
  moreover from d'
  have "decrypt lib \<lparr> iv = toHex iv16, authTag = toHex tag', ciphertext = toHex ct', salt = [] \<rparr>
          (replicate 32 0) = Inr [0]"
    by (simp add: decrypt_def fromHex_toHex)
  ultimately show ?thesis using e by blast
qed

text \<open>
  The claim C2 as the spec words it cannot hold for any library that meets \<open>nodeCrypto\<close>.
  First, there are more passphrases than keys of 32 bytes, so two different passphrases
  derive the same key from a given salt, and what one of them encrypted the other
  decrypts (by the round trip) instead of raising an error. Second, an input whose
  ciphertext and tag were replaced by those of another message under the same key is an
  altered input, and it decrypts to that other message.
\<close>

theorem wrong_passphrase_not_always_rejected:
  "\<not> (\<exists>lib. nodeCrypto lib \<and>
        (\<forall>data passphrase wrong saltBuf ivBuf encrypted.
           wrong \<noteq> passphrase \<and> length saltBuf = SALT_LENGTH \<and> length ivBuf = IV_LENGTH
           \<and> encryptWithPassphrase lib saltBuf ivBuf data passphrase = Inr encrypted
           \<longrightarrow> (\<exists>err. decryptWithPassphrase lib encrypted wrong = Inl err)))
   \<and> \<not> (\<exists>lib. nodeCrypto lib \<and>
        (\<forall>data key ivBuf ct tag ct' tag'.
           length key = KEY_LENGTH \<and> length ivBuf = IV_LENGTH
           \<and> gcmEncrypt lib key ivBuf data = Inr (ct, tag) \<and> (ct', tag') \<noteq> (ct, tag)
           \<longrightarrow> (\<exists>err. decrypt lib
                        \<lparr> iv = toHex ivBuf, authTag = toHex tag', ciphertext = toHex ct', salt = [] \<rparr>
                        key = Inl err)))"
proof (intro conjI notI)
  assume "\<exists>lib. nodeCrypto lib \<and>
        (\<forall>data passphrase wrong saltBuf ivBuf encrypted.
           wrong \<noteq> passphrase \<and> length saltBuf = SALT_LENGTH \<and> length ivBuf = IV_LENGTH
           \<and> encryptWithPassphrase lib saltBuf ivBuf data passphrase = Inr encrypted
           \<longrightarrow> (\<exists>err. decryptWithPassphrase lib encrypted wrong = Inl err))"
  then obtain lib where lib: "nodeCrypto lib"
    and rejects: "\<And>data passphrase wrong saltBuf ivBuf encrypted.
           wrong \<noteq> passphrase \<Longrightarrow> length saltBuf = SALT_LENGTH \<Longrightarrow> length ivBuf = IV_LENGTH
           \<Longrightarrow> encryptWithPassphrase lib saltBuf ivBuf data passphrase = Inr encrypted
           \<Longrightarrow> \<exists>err. decryptWithPassphrase lib encrypted wrong = Inl err"
    by blast
  have s: "length salt32 = SALT_LENGTH" and i: "length iv16 = IV_LENGTH"
    by (simp_all add: SALT_LENGTH_def IV_LENGTH_def salt32_def iv16_def)
  from wrong_passphrase_collision [OF lib]
  obtain P P' encrypted where ne: "P' \<noteq> P"
    and enc: "encryptWithPassphrase lib salt32 iv16 [] P = Inr encrypted"
    and dec: "decryptWithPassphrase lib encrypted P' = Inr []"
    by blast
  from dec rejects [OF ne s i enc] show False by auto
next
  assume "\<exists>lib. nodeCrypto lib \<and>
        (\<forall>data key ivBuf ct tag ct' tag'.
           length key = KEY_LENGTH \<and> length ivBuf = IV_LENGTH
           \<and> gcmEncrypt lib key ivBuf data = Inr (ct, tag) \<and> (ct', tag') \<noteq> (ct, tag)
           \<longrightarrow> (\<exists>err. decrypt lib
                        \<lparr> iv = toHex ivBuf, authTag = toHex tag', ciphertext = toHex ct', salt = [] \<rparr>
                        key = Inl err))"
  then obtain lib where lib: "nodeCrypto lib"
    and rejects: "\<And>data key ivBuf ct tag ct' tag'.
           length key = KEY_LENGTH \<Longrightarrow> length ivBuf = IV_LENGTH
           \<Longrightarrow> gcmEncrypt lib key ivBuf data = Inr (ct, tag) \<Longrightarrow> (ct', tag') \<noteq> (ct, tag)
           \<Longrightarrow> \<exists>err. decrypt lib
                        \<lparr> iv = toHex ivBuf, authTag = toHex tag', ciphertext = toHex ct', salt = [] \<rparr>
                        key = Inl err"
    by blast
  have k: "length (replicate 32 (0 :: 8 word)) = KEY_LENGTH" and i: "length iv16 = IV_LENGTH"
    by (simp_all add: KEY_LENGTH_def IV_LENGTH_def iv16_def)
  from altered_input_accepted [OF lib]
  obtain ct tag ct' tag' where e: "gcmEncrypt lib (replicate 32 0) iv16 [] = Inr (ct, tag)"
    and ne: "(ct', tag') \<noteq> (ct, tag)"
    and d: "decrypt lib \<lparr> iv = toHex iv16, authTag = toHex tag', ciphertext = toHex ct', salt = [] \<rparr>
               (replicate 32 0) = Inr [0]"
    by blast
  from d rejects [OF k i e ne] show False by auto
qed

text \<open>
  C2, as the code has it. Which inputs AES-GCM rejects is the library's verdict; the
  repository's part is that a rejection always surfaces and nothing else is returned or
  written:
  \<^item> \<open>decrypt\<close> raises the library's error whenever the tag does not verify for the bytes
    the record decodes to;
  \<^item> what \<open>encryptWithPassphrase\<close> produced under one passphrase reaches the library
    unchanged (same salt, vector, tag and ciphertext), so when the library rejects it
    under the key of another passphrase, \<open>decryptWithPassphrase\<close> raises that error;
  \<^item> \<open>restoreProfileFromDisk\<close> raises the library's error for any backup file whose
    slices the library rejects, and leaves the file system as it was;
  \<^item> so it does for the file \<open>saveProfileToDisk\<close> wrote under one passphrase when the
    library rejects it under the key of another.
\<close>

theorem authentication_failure_surfaces:
  "(gcmDecrypt lib key (fromHex (iv encrypted)) (fromHex (authTag encrypted))
        (fromHex (ciphertext encrypted)) = Inl err
      \<longrightarrow> decrypt lib encrypted key = Inl err)
   \<and> (gcmEncrypt lib (deriveKeyFromPassphrase lib passphrase saltBuf) ivBuf data = Inr (ct, tag)
      \<and> gcmDecrypt lib (deriveKeyFromPassphrase lib wrong saltBuf) ivBuf tag ct = Inl err
      \<longrightarrow> (\<exists>e. encryptWithPassphrase lib saltBuf ivBuf data passphrase = Inr e
             \<and> decryptWithPassphrase lib e wrong = Inl err))
   \<and> (fileAt fs (path_join [ENCRYPTED_DIR, site, trim (toLowerCase accountId) @ ''.zip.enc''])
        = Some fileData
      \<and> getKey lib globalPassphrase (subarray fileData 0 16) = Inr vaultKey
      \<and> gcmDecrypt lib vaultKey (subarray fileData 16 28) (subarray fileData 28 44) (drop 44 fileData)
        = Inl err
      \<longrightarrow> restoreProfileFromDisk lib globalPassphrase site accountId fs = (Inl err, fs))
   \<and> (length vaultSalt = 16 \<and> length vaultIv = 12 \<and> length vaultTag = 16
      \<and> pass \<noteq> [] \<and> wrongPass \<noteq> []
      \<and> dirAt fs (path_join [PROFILES_DIR, site, trim (toLowerCase accountId), ''userDataDir''])
        = Some archive
      \<and> gcmEncrypt lib (pbkdf2Sync lib pass vaultSalt 100000 32 ''sha256'') vaultIv archive
        = Inr (vaultCt, vaultTag)
      \<and> gcmDecrypt lib (pbkdf2Sync lib wrongPass vaultSalt 100000 32 ''sha256'') vaultIv vaultTag vaultCt
        = Inl err
      \<longrightarrow> restoreProfileFromDisk lib (Some wrongPass) site accountId
            (snd (saveProfileToDisk lib (Some pass) vaultSalt vaultIv site accountId fs))
          = (Inl err, snd (saveProfileToDisk lib (Some pass) vaultSalt vaultIv site accountId fs)))"
proof (intro conjI impI)
  assume "gcmDecrypt lib key (fromHex (iv encrypted)) (fromHex (authTag encrypted))
        (fromHex (ciphertext encrypted)) = Inl err"
  then show "decrypt lib encrypted key = Inl err"
    by (simp add: decrypt_def)
next
  assume "gcmEncrypt lib (deriveKeyFromPassphrase lib passphrase saltBuf) ivBuf data = Inr (ct, tag)
      \<and> gcmDecrypt lib (deriveKeyFromPassphrase lib wrong saltBuf) ivBuf tag ct = Inl err"
  then show "\<exists>e. encryptWithPassphrase lib saltBuf ivBuf data passphrase = Inr e
             \<and> decryptWithPassphrase lib e wrong = Inl err"
    using encryptWithPassphrase_eq [of lib passphrase saltBuf ivBuf data ct tag]
    by (simp add: decryptWithPassphrase_eq)
next
  assume "fileAt fs (path_join [ENCRYPTED_DIR, site, trim (toLowerCase accountId) @ ''.zip.enc''])
        = Some fileData
      \<and> getKey lib globalPassphrase (subarray fileData 0 16) = Inr vaultKey
      \<and> gcmDecrypt lib vaultKey (subarray fileData 16 28) (subarray fileData 28 44) (drop 44 fileData)
        = Inl err"
  then show "restoreProfileFromDisk lib globalPassphrase site accountId fs = (Inl err, fs)"
    using restoreProfileFromDisk_eq [of fs site accountId fileData lib globalPassphrase vaultKey]
    by simp
next
  let ?saved = "saveProfileToDisk lib (Some pass) vaultSalt vaultIv site accountId fs"
  let ?fileData = "vaultSalt @ vaultIv @ vaultTag @ vaultCt"
  assume a: "length vaultSalt = 16 \<and> length vaultIv = 12 \<and> length vaultTag = 16
      \<and> pass \<noteq> [] \<and> wrongPass \<noteq> []
      \<and> dirAt fs (path_join [PROFILES_DIR, site, trim (toLowerCase accountId), ''userDataDir''])
        = Some archive
      \<and> gcmEncrypt lib (pbkdf2Sync lib pass vaultSalt 100000 32 ''sha256'') vaultIv archive
        = Inr (vaultCt, vaultTag)
      \<and> gcmDecrypt lib (pbkdf2Sync lib wrongPass vaultSalt 100000 32 ''sha256'') vaultIv vaultTag vaultCt
        = Inl err"
  then have stored: "fileAt (snd ?saved)
        (path_join [ENCRYPTED_DIR, site, trim (toLowerCase accountId) @ ''.zip.enc''])
      = Some ?fileData"
    using saveProfileToDisk_eq(2) [of pass fs site accountId archive lib vaultSalt vaultIv vaultCt vaultTag]
    by simp
  from a have parts: "subarray ?fileData 0 16 = vaultSalt" "subarray ?fileData 16 28 = vaultIv"
    "subarray ?fileData 28 44 = vaultTag" "drop 44 ?fileData = vaultCt"
    by (simp_all add: subarray_def)
  from a parts(1)
  have key: "getKey lib (Some wrongPass) (subarray ?fileData 0 16)
      = Inr (pbkdf2Sync lib wrongPass vaultSalt 100000 32 ''sha256'')"
    by (simp add: getKey_def vault_KEY_LENGTH_def)
  from restoreProfileFromDisk_eq [OF stored key] parts a
  show "restoreProfileFromDisk lib (Some wrongPass) site accountId (snd ?saved) = (Inl err, snd ?saved)"
    by simp
qed

theorem authentication_failure_surfaces_witness:
  "gcmEncrypt toyCrypto (deriveKeyFromPassphrase toyCrypto ''p1'' salt32) iv16 [1, 2, 3]
     = Inr ([2, 3, 4], (112 # 49 # replicate 14 7))
   \<and> gcmDecrypt toyCrypto (deriveKeyFromPassphrase toyCrypto ''p2'' salt32) iv16
        (112 # 49 # replicate 14 7) [2, 3, 4]
     = Inl ''Unsupported state or unable to authenticate data''
   \<and> (\<exists>e. encryptWithPassphrase toyCrypto salt32 iv16 [1, 2, 3] ''p1'' = Inr e
         \<and> decryptWithPassphrase toyCrypto e ''p2''
             = Inl ''Unsupported state or unable to authenticate data'')
   \<and> restoreProfileFromDisk toyCrypto (Some ''p2'') ''flipkart'' ''acc1''
        (snd (saveProfileToDisk toyCrypto (Some ''p1'') salt16 iv12 ''flipkart'' ''acc1'' profileDisk))
     = (Inl ''Unsupported state or unable to authenticate data'',
        snd (saveProfileToDisk toyCrypto (Some ''p1'') salt16 iv12 ''flipkart'' ''acc1'' profileDisk))"
proof -
  let ?tag = "112 # 49 # replicate 14 7 :: Buffer"
  let ?msg = "''Unsupported state or unable to authenticate data''"
  have enc: "gcmEncrypt toyCrypto (deriveKeyFromPassphrase toyCrypto ''p1'' salt32) iv16 [1, 2, 3]
     = Inr ([2, 3, 4], ?tag)"
    by (simp add: toyCrypto_def deriveKeyFromPassphrase_def KEY_LENGTH_def salt32_def salt16_def)
  have dec: "gcmDecrypt toyCrypto (deriveKeyFromPassphrase toyCrypto ''p2'' salt32) iv16 ?tag [2, 3, 4]
     = Inl ?msg"
    by (simp add: toyCrypto_def deriveKeyFromPassphrase_def KEY_LENGTH_def salt32_def salt16_def)
  have enc2: "gcmEncrypt toyCrypto (pbkdf2Sync toyCrypto ''p1'' salt16 100000 32 ''sha256'') iv12
       [80, 75, 3, 4] = Inr ([81, 76, 4, 5], ?tag)"
    by (simp add: toyCrypto_def deriveKeyFromPassphrase_def KEY_LENGTH_def salt32_def salt16_def)
  have dec2: "gcmDecrypt toyCrypto (pbkdf2Sync toyCrypto ''p2'' salt16 100000 32 ''sha256'') iv12
       ?tag [81, 76, 4, 5] = Inl ?msg"
    by (simp add: toyCrypto_def deriveKeyFromPassphrase_def KEY_LENGTH_def salt32_def salt16_def)
  have d: "dirAt profileDisk
             (path_join [PROFILES_DIR, ''flipkart'', trim (toLowerCase ''acc1''), ''userDataDir''])
           = Some [80, 75, 3, 4]"
    by (simp add: profileDisk_def PROFILES_DIR_def DATA_DIR_def trim_def toLowerCase_def toLowerChar_def
        isWhiteSpace_def)
  have l: "length salt16 = 16" "length iv12 = 12" "length ?tag = 16" "''p1'' \<noteq> []" "''p2'' \<noteq> []"
    by (simp_all add: salt16_def iv12_def)
  note inst = authentication_failure_surfaces
    [where lib = toyCrypto and passphrase = "''p1''" and wrong = "''p2''" and saltBuf = salt32
       and ivBuf = iv16 and data = "[1, 2, 3]" and ct = "[2, 3, 4]" and tag = ?tag and err = ?msg
       and pass = "''p1''" and wrongPass = "''p2''" and vaultSalt = salt16 and vaultIv = iv12
       and archive = "[80, 75, 3, 4]" and vaultCt = "[81, 76, 4, 5]" and vaultTag = ?tag
       and fs = profileDisk and site = "''flipkart''" and accountId = "''acc1''"]
  from inst enc dec
  have a: "\<exists>e. encryptWithPassphrase toyCrypto salt32 iv16 [1, 2, 3] ''p1'' = Inr e
         \<and> decryptWithPassphrase toyCrypto e ''p2'' = Inl ?msg"
    by blast
  from inst l d enc2 dec2
  have b: "restoreProfileFromDisk toyCrypto (Some ''p2'') ''flipkart'' ''acc1''
        (snd (saveProfileToDisk toyCrypto (Some ''p1'') salt16 iv12 ''flipkart'' ''acc1'' profileDisk))
     = (Inl ?msg,
        snd (saveProfileToDisk toyCrypto (Some ''p1'') salt16 iv12 ''flipkart'' ''acc1'' profileDisk))"
    by blast
  from enc dec a b show ?thesis by blast
qed

end
